theory Spec2Isabelle
  imports Complex_Main
begin

section \<open>Data model (src/src/types.ts)\<close>

text \<open>
  The round-trip engine of the repository is the class \<open>MultiRouteDrip\<close> (drip.ts), with
  its scheduler (scheduler.ts), its persisted state (state.ts) and the wallet helpers
  (wallet.ts). JavaScript numbers that hold counts, seconds and milliseconds are
  integers here; numbers that come out of a division or of \<open>Math.random()\<close> are exact
  reals, so the model reads IEEE double arithmetic as exact arithmetic. BigInt
  amounts are unbounded integers.
\<close>

datatype CycleState = INIT | BOUGHT | SOLD

record Route =
  name :: string
  tokenMint :: string
  usdcMint :: string

record DripConfig =
  routes :: "Route list"
  totalTrades :: int
  windowSec :: int
  usdcMin :: real
  usdcMax :: real
  dryRun :: bool
  minDelaySec :: int
  failBackoffSec :: int
  maxBuyRetries :: int
  maxSellRetries :: int

record DripState =
  version :: int
  completedTrades :: int
  startTime :: int
  currentCycleId :: string
  cycleState :: CycleState
  currentRouteName :: "string option"
  currentRouteTokenMint :: "string option"
  lastBuyTx :: "string option"
  lastBuyTime :: "int option"
  lastBuyAmount :: "string option"

section \<open>Scheduler (scheduler.ts, calculateDelay)\<close>

definition ESTIMATED_EXEC_MS :: int where
  "ESTIMATED_EXEC_MS = 45000"

definition SAFETY_FACTOR :: real where
  "SAFETY_FACTOR = 85 / 100"

text \<open>
  \<open>calculateDelay config state\<close> reads the clock (\<open>Date.now()\<close>, here \<open>now\<close>) and, in
  its last branch, \<open>Math.random()\<close> (here \<open>rnd\<close>).
\<close>

definition calculateDelay :: "DripConfig \<Rightarrow> DripState \<Rightarrow> int \<Rightarrow> real \<Rightarrow> int" where
  "calculateDelay config state now rnd =
    (if cycleState state = BOUGHT then 0
     else
       let deadline = startTime state + windowSec config * 1000;
           remainingTime = deadline - now;
           remainingTrades = totalTrades config - completedTrades state
       in if remainingTrades \<le> 0 then 0
          else
            let remainingCycles = \<lceil>of_int remainingTrades / (2 :: real)\<rceil>
            in if remainingTime \<le> 0 then 0
               else
                 let safeTimeWindow = remainingTime - ESTIMATED_EXEC_MS * remainingCycles
                 in if safeTimeWindow \<le> 0 then 0
                    else
                      let avgDelayAllocated = of_int safeTimeWindow / of_int remainingCycles;
                          maxDelay = avgDelayAllocated * SAFETY_FACTOR;
                          minDelay = of_int (minDelaySec config * 1000)
                      in if maxDelay < minDelay then 0
                         else \<lfloor>rnd * (maxDelay - minDelay) + minDelay\<rfloor>)"






section \<open>Replies of the external services\<close>

text \<open>
  The engine talks to the quote/swap service, to the RPC node and to the file system, and
  it reads the clock and \<open>Math.random()\<close>. Every reply the engine can receive during one
  attempt of a leg is a field of \<open>Replies\<close>; the machine holds one such record for each
  attempt (\<open>replies m n\<close> for the \<open>n\<close>-th attempt since the process started), so the
  theorems quantify over every behaviour of the services. \<open>None\<close> and \<open>False\<close> stand for a
  call that rejects. Mint strings are taken to be well-formed public keys.
\<close>

record QuoteResponse =
  inAmount :: string
  outAmount :: string

datatype Confirmation = Confirmed | TransactionErr | Timeout

record Replies =
  randomDelay :: real
  randomRoute :: real
  randomAmount :: real
  balanceReply :: "int option"
  accountsReply :: "string list option"
  tokenBalanceReply :: "(string \<times> nat) option"
  quoteReply :: "QuoteResponse option"
  swapReply :: bool
  sendReply :: "string option"
  confirmReply :: Confirmation

datatype error =
    QuoteFailed
  | SwapApiFailed
  | SendFailed
  | TransactionFailed
  | ConfirmationTimeout
  | RpcFailed
  | SyntaxError
  | TypeError
  | StateCorrupted
  | MissingLastBuyAmount
  | BalanceTooLow int int
  | BalanceZero
  | SuspiciousBuyAmount
  | Exhausted int string "error option"
  | NullThrown

text \<open>
  The errors the engine raises on a safety violation: \<open>State corrupted: No route info\<close>,
  \<open>[SAFETY] Missing lastBuyAmount\<close>, \<open>[SAFETY] Wallet balance significantly lower\<close>,
  \<open>[SELL] CRITICAL: Balance is 0\<close> and \<open>Safety: Suspicious buy amount\<close>.
\<close>

fun isSafetyViolation :: "error \<Rightarrow> bool" where
  "isSafetyViolation StateCorrupted = True"
| "isSafetyViolation MissingLastBuyAmount = True"
| "isSafetyViolation (BalanceTooLow w t) = True"
| "isSafetyViolation BalanceZero = True"
| "isSafetyViolation SuspiciousBuyAmount = True"
| "isSafetyViolation e = False"

datatype StateFile = Missing | Unparsable | Parsed DripState

datatype LegKind = BUY | SELL

text \<open>
  What an observer sees of a run: the quote requests with their arguments
  (\<open>inputMint\<close>, \<open>outputMint\<close>, \<open>amount\<close>, \<open>slippageBps\<close>), the submitted transactions,
  the writes of the state file, the sleeps and the end summary. \<open>Entered\<close> marks the
  entry into \<open>executeBuy\<close> or \<open>executeSell\<close>.
\<close>

datatype Event =
    Entered LegKind
  | Quote string string int int
  | Submitted string
  | Saved DripState
  | Slept int
  | Summary

record Machine =
  state :: DripState
  stateFile :: StateFile
  clock :: int
  replies :: "nat \<Rightarrow> Replies"
  attempts :: nat
  freshId :: string
  trace :: "Event list"

definition emit :: "Event \<Rightarrow> Machine \<Rightarrow> Machine" where
  "emit e m = m\<lparr>trace := trace m @ [e]\<rparr>"

definition sleep :: "int \<Rightarrow> Machine \<Rightarrow> Machine" where
  "sleep ms m = emit (Slept ms) (m\<lparr>clock := clock m + max 0 ms\<rparr>)"

section \<open>utils.ts\<close>

definition WSOL_MINT :: string where
  "WSOL_MINT = ''So11111111111111111111111111111111111111112''"

definition USDC_MINT :: string where
  "USDC_MINT = ''EPjFWdd5AufqSSqeM2qN1xzybapC8G4wEGGkZwyTDt1v''"

definition KNOWN_DECIMALS :: "(string \<times> nat) list" where
  "KNOWN_DECIMALS =
     [(''So11111111111111111111111111111111111111112'', 9),
      (''EPjFWdd5AufqSSqeM2qN1xzybapC8G4wEGGkZwyTDt1v'', 6),
      (''JUPyiwrYJFskUPiHa7hkeR8VUtAeFoSYbKedZNsDvCN'', 6),
      (''EKpQGSJtjMFqKZ9KQanSqYXRcF8fBopzLHYxdM65zcjm'', 9),
      (''DezXAZ8z7PnrnRJjz3wXBoRgixCa6xjnB7YaB1pPB263'', 5)]"

definition getDecimals :: "string \<Rightarrow> nat" where
  "getDecimals mint =
     (case map_of KNOWN_DECIMALS mint of
        Some d \<Rightarrow> if d = 0 then 6 else d
      | None \<Rightarrow> 6)"

definition toUiAmount :: "int \<Rightarrow> nat \<Rightarrow> real" where
  "toUiAmount raw decimals = of_int raw / 10 ^ decimals"

text \<open>\<open>Math.round\<close> rounds to the nearest integer, a half upwards.\<close>

definition toRawAmount :: "real \<Rightarrow> nat \<Rightarrow> int" where
  "toRawAmount ui decimals = \<lfloor>ui * 10 ^ decimals + 1 / 2\<rfloor>"

text \<open>
  \<open>BigInt(s)\<close> on a string: the empty string is \<open>0n\<close>, a decimal numeral with an optional
  sign is its value, and the call throws a SyntaxError (\<open>None\<close>) otherwise. The prefixed
  literals (\<open>0x\<close>, \<open>0o\<close>, \<open>0b\<close>) and surrounding white space, which JavaScript also
  accepts, are outside the model: amounts are written by the quote service and by
  \<open>saveState\<close> as plain decimal numerals.
\<close>

definition digitValue :: "char \<Rightarrow> nat option" where
  "digitValue c =
     (let code = (of_char c :: nat)
      in if 48 \<le> code \<and> code \<le> 57 then Some (code - 48) else None)"

fun decimalValue :: "nat \<Rightarrow> string \<Rightarrow> nat option" where
  "decimalValue acc [] = Some acc"
| "decimalValue acc (c # cs) =
     (case digitValue c of
        None \<Rightarrow> None
      | Some d \<Rightarrow> decimalValue (10 * acc + d) cs)"

definition BigInt :: "string \<Rightarrow> int option" where
  "BigInt s =
     (case s of
        [] \<Rightarrow> Some 0
      | c # cs \<Rightarrow>
          if c = CHR ''-'' then
            (if cs = [] then None else map_option (\<lambda>n. - int n) (decimalValue 0 cs))
          else if c = CHR ''+'' then
            (if cs = [] then None else map_option int (decimalValue 0 cs))
          else map_option int (decimalValue 0 s))"

text \<open>\<open>!x\<close> on a value of type \<open>string | null\<close>: true for \<open>null\<close> and for the empty string.\<close>

definition falsy :: "string option \<Rightarrow> bool" where
  "falsy x = (x = None \<or> x = Some [])"

fun startsWith :: "string \<Rightarrow> string \<Rightarrow> bool" where
  "startsWith s [] = True"
| "startsWith [] (p # ps) = False"
| "startsWith (c # cs) (p # ps) = (c = p \<and> startsWith cs ps)"

text \<open>\<open>s.includes(sub)\<close>: \<open>sub\<close> occurs in \<open>s\<close> as a contiguous substring.\<close>

fun includesStr :: "string \<Rightarrow> string \<Rightarrow> bool" where
  "includesStr [] sub = (sub = [])"
| "includesStr (c # cs) sub = (startsWith (c # cs) sub \<or> includesStr cs sub)"

section \<open>Persisted state (state.ts)\<close>

definition freshState :: "Machine \<Rightarrow> DripState" where
  "freshState m =
     \<lparr>version = 2, completedTrades = 0, startTime = clock m, currentCycleId = freshId m,
      cycleState = INIT, currentRouteName = None, currentRouteTokenMint = None,
      lastBuyTx = None, lastBuyTime = None, lastBuyAmount = None\<rparr>"

definition loadState :: "Machine \<Rightarrow> DripState" where
  "loadState m =
     (case stateFile m of
        Parsed data \<Rightarrow>
          if version data = 2 \<and> cycleState data = BOUGHT
          then data\<lparr>completedTrades := 0, startTime := clock m\<rparr>
          else freshState m
      | _ \<Rightarrow> freshState m)"

definition saveState :: "DripState \<Rightarrow> Machine \<Rightarrow> Machine" where
  "saveState st m = emit (Saved st) (m\<lparr>stateFile := Parsed st\<rparr>)"

section \<open>Wallet balances (wallet.ts)\<close>

definition getBalance :: "Replies \<Rightarrow> error + int" where
  "getBalance rs = (case balanceReply rs of None \<Rightarrow> Inl RpcFailed | Some bal \<Rightarrow> Inr bal)"

text \<open>
  \<open>getTokenBalance\<close> returns the pair \<open>{amount, decimals}\<close>. Its \<open>try\<close> block covers both
  RPC calls and the \<open>BigInt\<close> conversion, and its \<open>catch\<close> returns \<open>{0n, 6}\<close>.
\<close>

definition getTokenBalance :: "Replies \<Rightarrow> int \<times> nat" where
  "getTokenBalance rs =
     (case accountsReply rs of
        None \<Rightarrow> (0, 6)
      | Some [] \<Rightarrow> (0, 6)
      | Some (ata # others) \<Rightarrow>
          (case tokenBalanceReply rs of
             None \<Rightarrow> (0, 6)
           | Some (amount, decimals) \<Rightarrow>
               (case BigInt amount of
                  None \<Rightarrow> (0, 6)
                | Some a \<Rightarrow> (a, decimals))))"

definition getSwapTokenBalance :: "Replies \<Rightarrow> string \<Rightarrow> error + int" where
  "getSwapTokenBalance rs mint =
     (if mint = WSOL_MINT then
        (case getBalance rs of
           Inl e \<Rightarrow> Inl e
         | Inr bal \<Rightarrow>
             let buffer = 10000000; usable = bal - buffer
             in Inr (if usable > 0 then usable else 0))
      else Inr (fst (getTokenBalance rs)))"

section \<open>The round-trip engine (drip.ts, class MultiRouteDrip)\<close>

text \<open>
  A method of the class is a function from the machine to its outcome and the machine it
  leaves: \<open>Inl e\<close> when the method throws \<open>e\<close>, \<open>Inr ()\<close> when it returns. What the method
  did before it threw stays done. The statistics collector and the log lines are left out.
\<close>

definition pickRandomRoute :: "DripConfig \<Rightarrow> real \<Rightarrow> Route option" where
  "pickRandomRoute config rnd =
     (let idx = \<lfloor>rnd * of_nat (length (routes config))\<rfloor>
      in if 0 \<le> idx \<and> nat idx < length (routes config)
         then Some (routes config ! nat idx) else None)"

definition randomFloat :: "real \<Rightarrow> real \<Rightarrow> real \<Rightarrow> real" where
  "randomFloat lo hi rnd = rnd * (hi - lo) + lo"

definition updateStateAfterBuy :: "Route \<Rightarrow> string \<Rightarrow> string \<Rightarrow> Machine \<Rightarrow> Machine" where
  "updateStateAfterBuy route tx amountRaw m =
     (let st = (state m)\<lparr>cycleState := BOUGHT,
                          currentRouteName := Some (name route),
                          currentRouteTokenMint := Some (tokenMint route),
                          lastBuyTx := Some tx,
                          lastBuyTime := Some (clock m),
                          lastBuyAmount := Some amountRaw,
                          completedTrades := completedTrades (state m) + 1\<rparr>
      in saveState st (m\<lparr>state := st\<rparr>))"

definition updateStateAfterSell :: "Machine \<Rightarrow> Machine" where
  "updateStateAfterSell m =
     (let st = (state m)\<lparr>cycleState := SOLD,
                          completedTrades := completedTrades (state m) + 1,
                          currentRouteName := None,
                          currentRouteTokenMint := None,
                          lastBuyAmount := None\<rparr>
      in saveState st (m\<lparr>state := st\<rparr>))"

text \<open>
  The sanity guard of \<open>executeBuy\<close>, which runs after the state has been updated:
  \<open>route.name.includes('SOL') && tokenAmountOutUi > 0.05 && usdcAmt < 1\<close>.
\<close>

definition suspiciousBuy :: "Route \<Rightarrow> real \<Rightarrow> real \<Rightarrow> bool" where
  "suspiciousBuy route tokenAmountOutUi usdcAmt =
     (includesStr (name route) ''SOL'' \<and> tokenAmountOutUi > 5 / 100 \<and> usdcAmt < 1)"

text \<open>
  The three calls that follow a quote in a real run: \<open>jupiter.getSwapTransaction\<close>,
  \<open>jupiter.executeSwap\<close> and \<open>jupiter.confirmTransaction\<close>. The result is the signature.
\<close>

definition submitSwap :: "Replies \<Rightarrow> Machine \<Rightarrow> (error + string) \<times> Machine" where
  "submitSwap rs m =
     (if \<not> swapReply rs then (Inl SwapApiFailed, m)
      else
        (case sendReply rs of
           None \<Rightarrow> (Inl SendFailed, m)
         | Some sig \<Rightarrow>
             (case confirmReply rs of
                TransactionErr \<Rightarrow> (Inl TransactionFailed, emit (Submitted sig) m)
              | Timeout \<Rightarrow> (Inl ConfirmationTimeout, emit (Submitted sig) m)
              | Confirmed \<Rightarrow> (Inr sig, emit (Submitted sig) m))))"

text \<open>
  The end of \<open>executeBuy\<close>: the state update, then the sanity guard, which throws after
  the state has been written.
\<close>

definition commitBuy ::
  "Route \<Rightarrow> string \<Rightarrow> string \<Rightarrow> real \<Rightarrow> real \<Rightarrow> Machine \<Rightarrow> (error + unit) \<times> Machine" where
  "commitBuy route sig boughtAmountRaw tokenAmountOutUi usdcAmt m =
     (if suspiciousBuy route tokenAmountOutUi usdcAmt
      then (Inl SuspiciousBuyAmount, updateStateAfterBuy route sig boughtAmountRaw m)
      else (Inr (), updateStateAfterBuy route sig boughtAmountRaw m))"

definition executeBuy :: "DripConfig \<Rightarrow> Machine \<Rightarrow> (error + unit) \<times> Machine" where
  "executeBuy config m0 =
     (let rs = replies m0 (attempts m0);
          m = emit (Entered BUY) (m0\<lparr>attempts := attempts m0 + 1\<rparr>)
      in (case pickRandomRoute config (randomRoute rs) of
            None \<Rightarrow> (Inl TypeError, m)
          | Some route \<Rightarrow>
              (let usdcAmt = randomFloat (usdcMin config) (usdcMax config) (randomAmount rs);
                   amountIn = toRawAmount usdcAmt 6;
                   tokenDecimals = getDecimals (tokenMint route);
                   slippageBps = (if dryRun config then 50 else 100);
                   m1 = emit (Quote (usdcMint route) (tokenMint route) amountIn slippageBps) m
               in (case quoteReply rs of
                     None \<Rightarrow> (Inl QuoteFailed, m1)
                   | Some quote \<Rightarrow>
                       if dryRun config then
                         (case BigInt (outAmount quote) of
                            None \<Rightarrow> (Inl SyntaxError, m1)
                          | Some boughtAmountRaw \<Rightarrow>
                              commitBuy route ''dry_run'' (outAmount quote)
                                (toUiAmount boughtAmountRaw tokenDecimals) usdcAmt
                                (sleep 500 m1))
                       else
                         (case submitSwap rs m1 of
                            (Inl e, m2) \<Rightarrow> (Inl e, m2)
                          | (Inr sig, m2) \<Rightarrow>
                              (case BigInt (outAmount quote) of
                                 None \<Rightarrow> (Inl SyntaxError, m2)
                               | Some boughtAmountRaw \<Rightarrow>
                                   commitBuy route sig (outAmount quote)
                                     (toUiAmount boughtAmountRaw tokenDecimals) usdcAmt
                                     m2))))))"

text \<open>
  \<open>Number(targetSellAmount - walletBal) / Number(targetSellAmount) < 0.02\<close>, evaluated
  where \<open>walletBal < targetSellAmount\<close>. A zero divisor makes the quotient \<open>Infinity\<close>,
  which is not below 0.02. On amounts below \<open>2^53\<close> the double quotient is below the
  double \<open>0.02\<close> exactly when the exact quotient is below one fiftieth.
\<close>

definition diffBelowTolerance :: "int \<Rightarrow> int \<Rightarrow> bool" where
  "diffBelowTolerance targetSellAmount walletBal =
     (targetSellAmount \<noteq> 0
      \<and> (of_int (targetSellAmount - walletBal) :: real) / of_int targetSellAmount < 2 / 100)"

text \<open>
  The balance validation of \<open>executeSell\<close> in a real run (the block under
  \<open>if (!this.config.dryRun)\<close>): the amount to sell, or the error thrown.
\<close>

definition validateSellAmount :: "int \<Rightarrow> int \<Rightarrow> error + int" where
  "validateSellAmount targetSellAmount walletBal =
     (if walletBal < targetSellAmount then
        (if diffBelowTolerance targetSellAmount walletBal then
           (if walletBal = 0 then Inl BalanceZero else Inr walletBal)
         else Inl (BalanceTooLow walletBal targetSellAmount))
      else if targetSellAmount = 0 then Inl BalanceZero
      else Inr targetSellAmount)"

text \<open>
  The amount \<open>executeSell\<close> resolves before it asks for a quote: the recorded amount in
  a dry run, the validated amount in a real run (which reads the wallet balance first).
\<close>

definition resolveSellAmount :: "DripConfig \<Rightarrow> Replies \<Rightarrow> string \<Rightarrow> int \<Rightarrow> error + int" where
  "resolveSellAmount config rs mint targetSellAmount =
     (if dryRun config then Inr targetSellAmount
      else
        (case getSwapTokenBalance rs mint of
           Inl e \<Rightarrow> Inl e
         | Inr walletBal \<Rightarrow> validateSellAmount targetSellAmount walletBal))"

text \<open>The quote, the swap and the state update of \<open>executeSell\<close>, once the amount is known.\<close>

definition sellAmount ::
  "DripConfig \<Rightarrow> Replies \<Rightarrow> string \<Rightarrow> string \<Rightarrow> int \<Rightarrow> Machine \<Rightarrow> (error + unit) \<times> Machine" where
  "sellAmount config rs mint stableMint amountToSell m =
     (let slippageBps = (if dryRun config then 50 else 100);
          m1 = emit (Quote mint stableMint amountToSell slippageBps) m
      in (case quoteReply rs of
            None \<Rightarrow> (Inl QuoteFailed, m1)
          | Some quote \<Rightarrow>
              (case BigInt (outAmount quote) of
                 None \<Rightarrow> (Inl SyntaxError, m1)
               | Some usdcOut \<Rightarrow>
                   if dryRun config then (Inr (), updateStateAfterSell (sleep 500 m1))
                   else
                     (case submitSwap rs m1 of
                        (Inl e, m2) \<Rightarrow> (Inl e, m2)
                      | (Inr sig, m2) \<Rightarrow> (Inr (), updateStateAfterSell m2)))))"

definition executeSell :: "DripConfig \<Rightarrow> bool \<Rightarrow> Machine \<Rightarrow> (error + unit) \<times> Machine" where
  "executeSell config isRecovery m0 =
     (let rs = replies m0 (attempts m0);
          m = emit (Entered SELL) (m0\<lparr>attempts := attempts m0 + 1\<rparr>)
      in if falsy (currentRouteName (state m)) \<or> falsy (currentRouteTokenMint (state m))
         then (Inl StateCorrupted, m)
         else
           (let mint = the (currentRouteTokenMint (state m));
                route = find (\<lambda>r. tokenMint r = mint) (routes config);
                stableMint = (case route of Some r \<Rightarrow> usdcMint r | None \<Rightarrow> USDC_MINT)
            in if falsy (lastBuyAmount (state m)) then (Inl MissingLastBuyAmount, m)
               else
                 (case BigInt (the (lastBuyAmount (state m))) of
                    None \<Rightarrow> (Inl SyntaxError, m)
                  | Some targetSellAmount \<Rightarrow>
                      (case resolveSellAmount config rs mint targetSellAmount of
                         Inl e \<Rightarrow> (Inl e, m)
                       | Inr amountToSell \<Rightarrow>
                           sellAmount config rs mint stableMint amountToSell m))))"

text \<open>
  \<open>retryLeg(action, maxRetries, legName)\<close>: the \<open>for\<close> loop from index \<open>i\<close> on, with the
  last error caught so far.
\<close>

function retryLegFrom ::
  "DripConfig \<Rightarrow> (Machine \<Rightarrow> (error + unit) \<times> Machine) \<Rightarrow> int \<Rightarrow> string \<Rightarrow> int
     \<Rightarrow> error option \<Rightarrow> Machine \<Rightarrow> (error + unit) \<times> Machine" where
  "retryLegFrom config action maxRetries legName i lastError m =
     (if i < maxRetries then
        (case action m of
           (Inr u, m') \<Rightarrow> (Inr (), m')
         | (Inl err, m') \<Rightarrow>
             retryLegFrom config action maxRetries legName (i + 1) (Some err)
               (if i < maxRetries - 1 then sleep (failBackoffSec config * 1000) m' else m'))
      else (Inl (Exhausted maxRetries legName lastError), m))"
  by pat_completeness auto
termination
  by (relation "measure (\<lambda>(config, action, maxRetries, legName, i, lastError, m).
        nat (maxRetries - i))") auto

definition retryLeg ::
  "DripConfig \<Rightarrow> (Machine \<Rightarrow> (error + unit) \<times> Machine) \<Rightarrow> int \<Rightarrow> string \<Rightarrow> Machine
     \<Rightarrow> (error + unit) \<times> Machine" where
  "retryLeg config action maxRetries legName m =
     retryLegFrom config action maxRetries legName 0 None m"

text \<open>
  The body of \<open>run\<close> under its \<open>try\<close>: the recovery phase, then the loop. The recovery
  phase unwinds an interrupted cycle and forces a clean state for the new run.
\<close>

definition recoveryPhase :: "DripConfig \<Rightarrow> Machine \<Rightarrow> (error + unit) \<times> Machine" where
  "recoveryPhase config m =
     (if cycleState (state m) = BOUGHT then
        (case retryLeg config (executeSell config True) (maxSellRetries config)
                ''SELL (Recovery)'' m of
           (Inl e, m1) \<Rightarrow> (Inl e, m1)
         | (Inr u, m1) \<Rightarrow>
             (let st = (loadState m1)\<lparr>cycleState := INIT,
                                        completedTrades := 0,
                                        startTime := clock m1,
                                        lastBuyAmount := None\<rparr>
              in (Inr (), saveState st (m1\<lparr>state := st\<rparr>))))
      else (Inr (), m))"

text \<open>
  One iteration of the \<open>while\<close> loop of \<open>run\<close>, up to the leg it dispatches: the
  scheduled delay, the logical reset from SOLD to INIT, and the leg under \<open>retryLeg\<close>.
\<close>

definition waitDelay :: "DripConfig \<Rightarrow> Machine \<Rightarrow> Machine" where
  "waitDelay config m =
     (let delayMs = calculateDelay config (state m) (clock m)
                      (randomDelay (replies m (attempts m)))
      in if delayMs > 0 then sleep delayMs m else m)"

definition resetSold :: "Machine \<Rightarrow> Machine" where
  "resetSold m =
     (if cycleState (state m) = SOLD
      then (let st = (state m)\<lparr>cycleState := INIT\<rparr> in saveState st (m\<lparr>state := st\<rparr>))
      else m)"

definition dispatchLeg :: "DripConfig \<Rightarrow> Machine \<Rightarrow> (error + unit) \<times> Machine" where
  "dispatchLeg config m =
     (let m1 = waitDelay config m
      in if cycleState (state m1) = INIT \<or> cycleState (state m1) = SOLD
         then retryLeg config (executeBuy config) (maxBuyRetries config) ''BUY'' (resetSold m1)
         else retryLeg config (executeSell config False) (maxSellRetries config) ''SELL'' m1)"

text \<open>
  The \<open>while\<close> loop of \<open>run\<close>. It ends because a leg that returns has completed one more
  trade, and a leg that throws leaves the loop; the facts the termination proof needs come
  first.
\<close>

function mainLoop :: "DripConfig \<Rightarrow> Machine \<Rightarrow> (error + unit) \<times> Machine" where
  "mainLoop config m =
     (if completedTrades (state m) < totalTrades config then
        (case dispatchLeg config m of
           (Inl err, m1) \<Rightarrow> (Inl err, m1)
         | (Inr u, m1) \<Rightarrow> mainLoop config (saveState (state m1) m1))
      else (Inr (), m))"
  by pat_completeness auto

lemma state_emit [simp]: "state (emit e m) = state m"
  by (simp add: emit_def)

lemma state_sleep [simp]: "state (sleep ms m) = state m"
  by (simp add: sleep_def)

lemma state_saveState [simp]: "state (saveState st m) = state m"
  by (simp add: saveState_def)

lemma state_updateStateAfterBuy:
  "completedTrades (state (updateStateAfterBuy route tx amountRaw m))
     = completedTrades (state m) + 1"
  by (simp add: updateStateAfterBuy_def Let_def)

lemma state_updateStateAfterSell:
  "completedTrades (state (updateStateAfterSell m)) = completedTrades (state m) + 1"
  by (simp add: updateStateAfterSell_def Let_def)

lemma submitSwap_state: "submitSwap rs m = (r, m') \<Longrightarrow> state m' = state m"
  by (auto simp: submitSwap_def split: if_splits option.splits Confirmation.splits)

lemma commitBuy_completed:
  "commitBuy route sig amt ui usdcAmt m = (r, m')
     \<Longrightarrow> completedTrades (state m') = completedTrades (state m) + 1"
  by (auto simp: commitBuy_def state_updateStateAfterBuy split: if_splits)

lemma executeBuy_completed:
  assumes "executeBuy config m = (r, m')"
  shows "completedTrades (state m) \<le> completedTrades (state m')"
    and "r = Inr () \<Longrightarrow> completedTrades (state m) < completedTrades (state m')"
  using assms
  by (auto simp: executeBuy_def Let_def split: option.splits if_splits prod.splits sum.splits
      dest!: commitBuy_completed submitSwap_state)

lemma sellAmount_completed:
  assumes "sellAmount config rs mint stableMint amt m = (r, m')"
  shows "completedTrades (state m) \<le> completedTrades (state m')"
    and "r = Inr () \<Longrightarrow> completedTrades (state m) < completedTrades (state m')"
  using assms
  by (auto simp: sellAmount_def Let_def state_updateStateAfterSell
      split: option.splits if_splits prod.splits sum.splits dest!: submitSwap_state)

lemma executeSell_completed:
  assumes "executeSell config isRecovery m = (r, m')"
  shows "completedTrades (state m) \<le> completedTrades (state m')"
    and "r = Inr () \<Longrightarrow> completedTrades (state m) < completedTrades (state m')"
  using assms
  by (auto simp: executeSell_def Let_def split: option.splits if_splits sum.splits
      dest: sellAmount_completed)

definition advances :: "(Machine \<Rightarrow> (error + unit) \<times> Machine) \<Rightarrow> bool" where
  "advances action =
     (\<forall>m r m'. action m = (r, m') \<longrightarrow>
        completedTrades (state m) \<le> completedTrades (state m')
        \<and> (r = Inr () \<longrightarrow> completedTrades (state m) < completedTrades (state m')))"

lemma retryLegFrom_completed:
  "retryLegFrom config action maxRetries legName i lastError m = (Inr (), m')
     \<Longrightarrow> advances action
     \<Longrightarrow> completedTrades (state m) < completedTrades (state m')"
proof (induction config action maxRetries legName i lastError m
    rule: retryLegFrom.induct)
  case (1 config action maxRetries legName i lastError m)
  note run = "1.prems"(1) and adv = "1.prems"(2)
  show ?case
  proof (cases "i < maxRetries")
    case False
    with run show ?thesis by simp
  next
    case True
    obtain r m1 where act: "action m = (r, m1)" by (cases "action m")
    show ?thesis
    proof (cases r)
      case (Inr v)
      with True act run have "m' = m1" by simp
      moreover from act Inr have "action m = (Inr (), m1)" by simp
      ultimately show ?thesis using adv unfolding advances_def by blast
    next
      case (Inl err)
      let ?m2 = "if i < maxRetries - 1 then sleep (failBackoffSec config * 1000) m1 else m1"
      from True act Inl run
      have rec: "retryLegFrom config action maxRetries legName (i + 1) (Some err) ?m2
                   = (Inr (), m')"
        by simp
      have "completedTrades (state ?m2) < completedTrades (state m')"
        using "1.IH" [OF True act [symmetric] Inl rec adv] .
      moreover have "completedTrades (state m) \<le> completedTrades (state m1)"
        using adv act unfolding advances_def by blast
      ultimately show ?thesis by (simp split: if_splits)
    qed
  qed
qed

lemma advances_executeBuy: "advances (executeBuy config)"
  unfolding advances_def using executeBuy_completed by blast

lemma advances_executeSell: "advances (executeSell config isRecovery)"
  unfolding advances_def using executeSell_completed by blast

lemma retryLeg_buy_completed:
  "retryLeg config (executeBuy config) n l m = (Inr (), m')
     \<Longrightarrow> completedTrades (state m) < completedTrades (state m')"
  unfolding retryLeg_def
  by (erule retryLegFrom_completed) (rule advances_executeBuy)

lemma retryLeg_sell_completed:
  "retryLeg config (executeSell config b) n l m = (Inr (), m')
     \<Longrightarrow> completedTrades (state m) < completedTrades (state m')"
  unfolding retryLeg_def
  by (erule retryLegFrom_completed) (rule advances_executeSell)

lemma state_waitDelay [simp]: "state (waitDelay config m) = state m"
  by (simp add: waitDelay_def Let_def)

lemma completed_resetSold [simp]:
  "completedTrades (state (resetSold m)) = completedTrades (state m)"
  by (simp add: resetSold_def Let_def)

lemma dispatchLeg_completed:
  assumes "dispatchLeg config m = (Inr (), m')"
  shows "completedTrades (state m) < completedTrades (state m')"
proof (cases "cycleState (state m) = INIT \<or> cycleState (state m) = SOLD")
  case True
  with assms
  have "retryLeg config (executeBuy config) (maxBuyRetries config) ''BUY''
          (resetSold (waitDelay config m)) = (Inr (), m')"
    by (simp add: dispatchLeg_def Let_def)
  from retryLeg_buy_completed [OF this] show ?thesis by simp
next
  case False
  with assms
  have "retryLeg config (executeSell config False) (maxSellRetries config) ''SELL''
          (waitDelay config m) = (Inr (), m')"
    by (simp add: dispatchLeg_def Let_def)
  from retryLeg_sell_completed [OF this] show ?thesis by simp
qed

termination mainLoop
proof (relation "measure (\<lambda>(config, m). nat (totalTrades config - completedTrades (state m)))")
  show "wf (measure (\<lambda>(config, m). nat (totalTrades config - completedTrades (state m))))"
    by simp
next
  fix config m x y b
  assume lt: "completedTrades (state m) < totalTrades config"
    and "(x, y) = dispatchLeg config m" and "x = Inr b"
  then have "dispatchLeg config m = (Inr (), y)" by (cases b) simp
  from dispatchLeg_completed [OF this] lt
  show "((config, saveState (state y) y), config, m)
      \<in> measure (\<lambda>(config, m). nat (totalTrades config - completedTrades (state m)))"
    by simp
qed

definition printEndSummary :: "Machine \<Rightarrow> Machine" where
  "printEndSummary m = emit Summary m"

text \<open>
  \<open>run\<close>: the \<open>try\<close> block, the \<open>catch\<close> that logs \<open>[RUN] Aborted\<close> and does not rethrow,
  and the \<open>finally\<close> that prints the summary. \<open>tryBlock\<close> is the part under \<open>try\<close>.
\<close>

definition tryBlock :: "DripConfig \<Rightarrow> Machine \<Rightarrow> (error + unit) \<times> Machine" where
  "tryBlock config m =
     (case recoveryPhase config m of
        (Inl e, m1) \<Rightarrow> (Inl e, m1)
      | (Inr u, m1) \<Rightarrow> mainLoop config m1)"

definition run :: "DripConfig \<Rightarrow> Machine \<Rightarrow> (error + unit) \<times> Machine" where
  "run config m =
     (case tryBlock config m of
        (Inl e, m1) \<Rightarrow> (Inr (), printEndSummary m1)
      | (Inr u, m1) \<Rightarrow> (Inr (), printEndSummary m1))"

text \<open>
  The constructor of \<open>MultiRouteDrip\<close> loads the state. \<open>main\<close> with the command \<open>drip\<close>
  constructs the bot and awaits \<open>bot.run()\<close> under a \<open>try\<close> whose \<open>catch\<close> calls
  \<open>process.exit(1)\<close>; when nothing is thrown the process ends with status 0. The result
  is the exit status. Loading the configuration and deriving the key pair are taken to
  succeed.
\<close>

definition construct :: "Machine \<Rightarrow> Machine" where
  "construct m = m\<lparr>state := loadState m\<rparr>"

definition main :: "DripConfig \<Rightarrow> Machine \<Rightarrow> int \<times> Machine" where
  "main config m =
     (case run config (construct m) of
        (Inl e, m1) \<Rightarrow> (1, m1)
      | (Inr u, m1) \<Rightarrow> (0, m1))"

section \<open>The anchor round-trip mode (mvp-swap.js, runAnchorRoundtripMode)\<close>

text \<open>
  The repository's second engine buys and sells in one loop iteration and keeps no
  persisted cycle state. Its swap helper \<open>executeSwapWithRetry\<close> is where the retry
  policy with exponential backoff, escalating slippage and sell-only retry lives. The
  configuration holds the constants the mode reads from the environment. The interrupt
  flag, the balance snapshots and the notifications are left out.
\<close>

record Token =
  t_mint :: string
  t_decimals :: nat

record AnchorConfig =
  TOTAL_CYCLES :: int
  WINDOW_SEC :: int
  USDC_MIN :: real
  USDC_MAX :: real
  JITTER_PCT :: real
  MIN_DELAY :: int
  FAIL_BACKOFF :: int
  IS_DRY_RUN :: bool
  RETRY_MAX :: int
  RETRY_BACKOFF_MS :: int
  RETRY_BACKOFF_MAX_MS :: int
  RETRY_SLIPPAGE_STEP :: int
  RETRY_SLIPPAGE_MAX :: int
  RETRY_SELL_ONLY :: bool
  candidates :: "Token list"

record SwapRequest =
  inputMint :: string
  outputMint :: string
  amountIn :: int
  baseSlippageBps :: int
  legLabel :: string
  isBuy :: bool

record SwapResult =
  swappedIn :: int
  swappedOut :: int
  txId :: string

text \<open>The body of the \<open>try\<close> block of \<open>executeSwapWithRetry\<close>: one attempt.\<close>

definition swapAttempt ::
  "AnchorConfig \<Rightarrow> SwapRequest \<Rightarrow> int \<Rightarrow> Machine \<Rightarrow> (error + SwapResult) \<times> Machine" where
  "swapAttempt cfg req currentSlippage m0 =
     (let rs = replies m0 (attempts m0);
          m = emit (Entered (if isBuy req then BUY else SELL))
                (m0\<lparr>attempts := attempts m0 + 1\<rparr>);
          m1 = emit (Quote (inputMint req) (outputMint req) (amountIn req) currentSlippage) m
      in (case quoteReply rs of
            None \<Rightarrow> (Inl QuoteFailed, m1)
          | Some quote \<Rightarrow>
              if IS_DRY_RUN cfg then
                (case (BigInt (inAmount quote), BigInt (outAmount quote)) of
                   (Some i, Some out) \<Rightarrow>
                     (Inr \<lparr>swappedIn = i, swappedOut = out, txId = ''dry-run-sig''\<rparr>, m1)
                 | _ \<Rightarrow> (Inl SyntaxError, m1))
              else
                (case submitSwap rs m1 of
                   (Inl e, m2) \<Rightarrow> (Inl e, m2)
                 | (Inr sig, m2) \<Rightarrow>
                     (case (BigInt (inAmount quote), BigInt (outAmount quote)) of
                        (Some i, Some out) \<Rightarrow>
                          (Inr \<lparr>swappedIn = i, swappedOut = out, txId = sig\<rparr>, m2)
                      | _ \<Rightarrow> (Inl SyntaxError, m2)))))"

text \<open>The two adjustments the \<open>catch\<close> block makes when the attempt was not the last.\<close>

definition nextBackoff :: "AnchorConfig \<Rightarrow> int \<Rightarrow> int" where
  "nextBackoff cfg attempt =
     (let backoff = RETRY_BACKOFF_MS cfg * 2 ^ nat (attempt - 1)
      in if backoff > RETRY_BACKOFF_MAX_MS cfg then RETRY_BACKOFF_MAX_MS cfg else backoff)"

definition nextSlippage :: "AnchorConfig \<Rightarrow> int \<Rightarrow> int" where
  "nextSlippage cfg currentSlippage =
     (if currentSlippage < RETRY_SLIPPAGE_MAX cfg then
        (let raised = currentSlippage + RETRY_SLIPPAGE_STEP cfg
         in if raised > RETRY_SLIPPAGE_MAX cfg then RETRY_SLIPPAGE_MAX cfg else raised)
      else currentSlippage)"

text \<open>
  The \<open>for\<close> loop of \<open>executeSwapWithRetry\<close> from attempt number \<open>attempt\<close> on, with the
  current slippage and the last error caught. After the loop the helper throws the last
  error.
\<close>

function swapRetryFrom ::
  "AnchorConfig \<Rightarrow> SwapRequest \<Rightarrow> int \<Rightarrow> int \<Rightarrow> int \<Rightarrow> error option \<Rightarrow> Machine
     \<Rightarrow> (error + SwapResult) \<times> Machine" where
  "swapRetryFrom cfg req maxAttempts attempt currentSlippage lastError m =
     (if attempt \<le> maxAttempts then
        (case swapAttempt cfg req currentSlippage m of
           (Inr res, m') \<Rightarrow> (Inr res, m')
         | (Inl err, m') \<Rightarrow>
             if attempt \<noteq> maxAttempts then
               swapRetryFrom cfg req maxAttempts (attempt + 1)
                 (nextSlippage cfg currentSlippage) (Some err)
                 (sleep (nextBackoff cfg attempt) m')
             else
               swapRetryFrom cfg req maxAttempts (attempt + 1) currentSlippage (Some err) m')
      else (case lastError of None \<Rightarrow> (Inl NullThrown, m) | Some err \<Rightarrow> (Inl err, m)))"
  by pat_completeness auto
termination
  by (relation "measure (\<lambda>(cfg, req, maxAttempts, attempt, currentSlippage, lastError, m).
        nat (maxAttempts + 1 - attempt))") auto

definition maxAttemptsFor :: "AnchorConfig \<Rightarrow> SwapRequest \<Rightarrow> int" where
  "maxAttemptsFor cfg req =
     (if isBuy req \<and> RETRY_SELL_ONLY cfg then 1 else max 1 (RETRY_MAX cfg))"

definition executeSwapWithRetry ::
  "AnchorConfig \<Rightarrow> SwapRequest \<Rightarrow> Machine \<Rightarrow> (error + SwapResult) \<times> Machine" where
  "executeSwapWithRetry cfg req m =
     swapRetryFrom cfg req (maxAttemptsFor cfg req) 1 (baseSlippageBps req) None m"

text \<open>The cycle loop of the anchor mode, from cycle \<open>i\<close> on.\<close>

record AnchorStats =
  success :: int
  skipped :: int
  failed :: int
  total_cycles :: int

definition clamp :: "real \<Rightarrow> real \<Rightarrow> real \<Rightarrow> real" where
  "clamp val lo hi = max lo (min hi val)"

text \<open>\<open>parseFloat(x.toFixed(2))\<close>: \<open>x\<close> rounded to two decimals.\<close>

definition toFixed2 :: "real \<Rightarrow> real" where
  "toFixed2 x = of_int \<lfloor>x * 100 + 1 / 2\<rfloor> / 100"

text \<open>\<open>numberToTokenUnits\<close> of mvp-swap.js: \<open>BigInt(Math.round(num * 10 ** decimals))\<close>.\<close>

definition numberToTokenUnits :: "real \<Rightarrow> nat \<Rightarrow> int" where
  "numberToTokenUnits num decimals = \<lfloor>num * 10 ^ decimals + 1 / 2\<rfloor>"

definition pickCandidate :: "AnchorConfig \<Rightarrow> real \<Rightarrow> Token option" where
  "pickCandidate cfg rnd =
     (let idx = \<lfloor>rnd * of_nat (length (candidates cfg))\<rfloor>
      in if 0 \<le> idx \<and> nat idx < length (candidates cfg)
         then Some (candidates cfg ! nat idx) else None)"

definition buyRequest :: "Token \<Rightarrow> int \<Rightarrow> int \<Rightarrow> SwapRequest" where
  "buyRequest token amountUsdcIn legNo =
     \<lparr>inputMint = USDC_MINT, outputMint = t_mint token, amountIn = amountUsdcIn,
      baseSlippageBps = 50, legLabel = ''LEG'', isBuy = True\<rparr>"

definition sellRequest :: "Token \<Rightarrow> int \<Rightarrow> int \<Rightarrow> SwapRequest" where
  "sellRequest token amountTokenToSell legNo =
     \<lparr>inputMint = t_mint token, outputMint = USDC_MINT, amountIn = amountTokenToSell,
      baseSlippageBps = 50, legLabel = ''LEG'', isBuy = False\<rparr>"

definition cycleDelayMs :: "AnchorConfig \<Rightarrow> real \<Rightarrow> int" where
  "cycleDelayMs cfg rnd =
     (let baseInterval = of_int (WINDOW_SEC cfg) / of_int (TOTAL_CYCLES cfg);
          jitter = randomFloat (- JITTER_PCT cfg) (JITTER_PCT cfg) rnd;
          delaySec = clamp (baseInterval * (1 + jitter)) (of_int (MIN_DELAY cfg)) 120
      in \<lfloor>delaySec * 1000\<rfloor>)"

function anchorLoop ::
  "AnchorConfig \<Rightarrow> int \<Rightarrow> AnchorStats \<Rightarrow> Machine \<Rightarrow> (error + AnchorStats) \<times> Machine" where
  "anchorLoop cfg i stats m =
     (if i \<le> TOTAL_CYCLES cfg then
        (let stats1 = stats\<lparr>total_cycles := total_cycles stats + 1\<rparr>;
             rs = replies m (attempts m)
         in (case pickCandidate cfg (randomRoute rs) of
               None \<Rightarrow> (Inl TypeError, m)
             | Some token \<Rightarrow>
                 (let targetUsdc = toFixed2 (randomFloat (USDC_MIN cfg) (USDC_MAX cfg)
                                               (randomAmount rs));
                      amountUsdcIn = numberToTokenUnits targetUsdc 6
                  in (case executeSwapWithRetry cfg
                             (buyRequest token amountUsdcIn ((i - 1) * 2 + 1)) m of
                        (Inl err, m1) \<Rightarrow>
                          anchorLoop cfg (i + 1) (stats1\<lparr>failed := failed stats1 + 1\<rparr>)
                            (sleep (FAIL_BACKOFF cfg) m1)
                      | (Inr buyResult, m1) \<Rightarrow>
                          (case executeSwapWithRetry cfg
                                  (sellRequest token (swappedOut buyResult) ((i - 1) * 2 + 2))
                                  m1 of
                             (Inr sellResult, m2) \<Rightarrow>
                               anchorLoop cfg (i + 1) (stats1\<lparr>success := success stats1 + 1\<rparr>)
                                 (sleep (cycleDelayMs cfg (randomDelay rs)) m2)
                           | (Inl err, m2) \<Rightarrow>
                               anchorLoop cfg (i + 1) (stats1\<lparr>failed := failed stats1 + 1\<rparr>)
                                 (sleep (cycleDelayMs cfg (randomDelay rs)) m2))))))
      else (Inr stats, m))"
  by pat_completeness auto
termination
  by (relation "measure (\<lambda>(cfg, i, stats, m). nat (TOTAL_CYCLES cfg + 1 - i))") auto

section \<open>Observations on a trace\<close>

fun quoteAmounts :: "Event list \<Rightarrow> int list" where
  "quoteAmounts [] = []"
| "quoteAmounts (Quote i out amount slippage # es) = amount # quoteAmounts es"
| "quoteAmounts (e # es) = quoteAmounts es"

fun quoteSlippages :: "Event list \<Rightarrow> int list" where
  "quoteSlippages [] = []"
| "quoteSlippages (Quote i out amount slippage # es) = slippage # quoteSlippages es"
| "quoteSlippages (e # es) = quoteSlippages es"

fun sleeps :: "Event list \<Rightarrow> int list" where
  "sleeps [] = []"
| "sleeps (Slept ms # es) = ms # sleeps es"
| "sleeps (e # es) = sleeps es"

fun savedStates :: "Event list \<Rightarrow> DripState list" where
  "savedStates [] = []"
| "savedStates (Saved st # es) = st # savedStates es"
| "savedStates (e # es) = savedStates es"

fun submitted :: "Event list \<Rightarrow> string list" where
  "submitted [] = []"
| "submitted (Submitted sig # es) = sig # submitted es"
| "submitted (e # es) = submitted es"

text \<open>
  The token-account lookup of \<open>getTokenBalance\<close> fails (\<open>getTokenAccountsByOwner\<close> or
  \<open>getTokenAccountBalance\<close> rejects) or finds no token account.
\<close>

definition lookupFails :: "Replies \<Rightarrow> bool" where
  "lookupFails rs =
     (accountsReply rs = None \<or> accountsReply rs = Some [] \<or> tokenBalanceReply rs = None)"

fun quoteInputs :: "Event list \<Rightarrow> string list" where
  "quoteInputs [] = []"
| "quoteInputs (Quote i out amount slippage # es) = i # quoteInputs es"
| "quoteInputs (e # es) = quoteInputs es"

definition entries :: "LegKind \<Rightarrow> Event list \<Rightarrow> nat" where
  "entries kind es = length (filter (\<lambda>e. e = Entered kind) es)"

definition completedSells :: "Event list \<Rightarrow> nat" where
  "completedSells es = length (filter (\<lambda>st. cycleState st = SOLD) (savedStates es))"

section \<open>Outcomes of a retried leg\<close>

text \<open>
  \<open>outcome P Q x\<close>: the result \<open>x\<close> of a method left a machine satisfying \<open>P\<close> if it threw
  and \<open>Q\<close> if it returned.
\<close>





section \<open>The state invariant\<close>

definition I1 :: "DripState \<Rightarrow> bool" where
  "I1 st =
     ((cycleState st = BOUGHT)
      = (currentRouteName st \<noteq> None \<and> currentRouteTokenMint st \<noteq> None
         \<and> lastBuyAmount st \<noteq> None))"

definition fileI1 :: "StateFile \<Rightarrow> bool" where
  "fileI1 f = (case f of Parsed data \<Rightarrow> I1 data | _ \<Rightarrow> True)"

definition consistent :: "Machine \<Rightarrow> bool" where
  "consistent m =
     (I1 (state m) \<and> fileI1 (stateFile m) \<and> list_all I1 (savedStates (trace m)))"

definition preserves :: "(Machine \<Rightarrow> bool) \<Rightarrow> (Machine \<Rightarrow> 'a \<times> Machine) \<Rightarrow> bool" where
  "preserves P f = (\<forall>m. P m \<longrightarrow> P (snd (f m)))"

section \<open>The retry policy in closed form\<close>

text \<open>
  The retry policy as the specification words it: the first attempt uses the base
  tolerance and each retry raises the previous one by the step, capped at the maximum;
  the wait after a failed attempt is the initial backoff doubled once per earlier attempt,
  capped at the maximum backoff. \<open>codeSlippage\<close> is the tolerance the code reaches after a
  number of escalations.
\<close>

primrec claimedSlippage :: "AnchorConfig \<Rightarrow> int \<Rightarrow> nat \<Rightarrow> int" where
  "claimedSlippage cfg base 0 = base"
| "claimedSlippage cfg base (Suc retries) =
     min (claimedSlippage cfg base retries + RETRY_SLIPPAGE_STEP cfg) (RETRY_SLIPPAGE_MAX cfg)"

definition codeSlippage :: "AnchorConfig \<Rightarrow> int \<Rightarrow> nat \<Rightarrow> int" where
  "codeSlippage cfg base retries = (nextSlippage cfg ^^ retries) base"

definition claimedBackoff :: "AnchorConfig \<Rightarrow> nat \<Rightarrow> int" where
  "claimedBackoff cfg attempt =
     min (RETRY_BACKOFF_MS cfg * 2 ^ (attempt - 1)) (RETRY_BACKOFF_MAX_MS cfg)"

definition legKindOf :: "SwapRequest \<Rightarrow> LegKind" where
  "legKindOf req = (if isBuy req then BUY else SELL)"

text \<open>
  What a call of the loop of \<open>executeSwapWithRetry\<close> has done when it made \<open>n\<close> attempts,
  starting at attempt number \<open>a\<close> after \<open>k\<close> escalations of the base slippage.
\<close>

definition followsPolicy ::
  "AnchorConfig \<Rightarrow> SwapRequest \<Rightarrow> int \<Rightarrow> nat \<Rightarrow> nat \<Rightarrow> Machine \<Rightarrow> Machine \<Rightarrow> nat \<Rightarrow> bool" where
  "followsPolicy cfg req base a k m m' n =
     (attempts m' = attempts m + n
      \<and> quoteSlippages (trace m')
          = quoteSlippages (trace m) @ map (codeSlippage cfg base) [k..<k + n]
      \<and> sleeps (trace m') = sleeps (trace m) @ map (claimedBackoff cfg) [a..<a + (n - 1)]
      \<and> entries (legKindOf req) (trace m') = entries (legKindOf req) (trace m) + n)"

definition fixedSlippage :: "DripConfig \<Rightarrow> int" where
  "fixedSlippage config = (if dryRun config then 50 else 100)"

section \<open>Example inputs\<close>

definition defaultConfig :: DripConfig where
  "defaultConfig =
     \<lparr>routes = [\<lparr>name = ''SOL-USDC'', tokenMint = WSOL_MINT, usdcMint = USDC_MINT\<rparr>],
      totalTrades = 10, windowSec = 3600, usdcMin = 1, usdcMax = 2, dryRun = False,
      minDelaySec = 5, failBackoffSec = 30, maxBuyRetries = 3, maxSellRetries = 5\<rparr>"

definition initialState :: DripState where
  "initialState =
     \<lparr>version = 2, completedTrades = 0, startTime = 0, currentCycleId = ''id'',
      cycleState = INIT, currentRouteName = None, currentRouteTokenMint = None,
      lastBuyTx = None, lastBuyTime = None, lastBuyAmount = None\<rparr>"

definition okReplies :: Replies where
  "okReplies =
     \<lparr>randomDelay = 0, randomRoute = 0, randomAmount = 1 / 2,
      balanceReply = Some 1000000000, accountsReply = Some [''ata''],
      tokenBalanceReply = Some (''500000'', 6),
      quoteReply = Some \<lparr>inAmount = ''1500000'', outAmount = ''500000''\<rparr>,
      swapReply = True, sendReply = Some ''sig'', confirmReply = Confirmed\<rparr>"

definition walletHolds :: "string \<Rightarrow> Replies" where
  "walletHolds amount = okReplies\<lparr>tokenBalanceReply := Some (amount, 6)\<rparr>"

definition bootMachine :: "(nat \<Rightarrow> Replies) \<Rightarrow> StateFile \<Rightarrow> Machine" where
  "bootMachine rs f =
     \<lparr>state = initialState, stateFile = f, clock = 1000, replies = rs, attempts = 0,
      freshId = ''id'', trace = []\<rparr>"

text \<open>The persisted state of Scenario B: 500000 units of X bought, not yet sold.\<close>

definition boughtState :: DripState where
  "boughtState =
     \<lparr>version = 2, completedTrades = 3, startTime = 0, currentCycleId = ''c1'',
      cycleState = BOUGHT, currentRouteName = Some ''X-USDC'',
      currentRouteTokenMint = Some ''X'', lastBuyTx = Some ''sig0'', lastBuyTime = Some 0,
      lastBuyAmount = Some ''500000''\<rparr>"

definition xConfig :: DripConfig where
  "xConfig =
     \<lparr>routes = [\<lparr>name = ''X-USDC'', tokenMint = ''X'', usdcMint = USDC_MINT\<rparr>],
      totalTrades = 0, windowSec = 3600, usdcMin = 1, usdcMax = 2, dryRun = False,
      minDelaySec = 5, failBackoffSec = 30, maxBuyRetries = 3, maxSellRetries = 5\<rparr>"

definition holding :: "(nat \<Rightarrow> Replies) \<Rightarrow> Machine" where
  "holding rs = (bootMachine rs (Parsed boughtState))\<lparr>state := boughtState\<rparr>"

definition quoteDown :: Replies where
  "quoteDown = okReplies\<lparr>quoteReply := None\<rparr>"

text \<open>A quote of 0.1 SOL for less than one USDC, which trips the sanity guard of a buy.\<close>

definition cheapSol :: Replies where
  "cheapSol = okReplies\<lparr>quoteReply := Some \<lparr>inAmount = ''700000'', outAmount = ''100000000''\<rparr>\<rparr>"

definition solConfig :: DripConfig where
  "solConfig = defaultConfig\<lparr>usdcMin := 1 / 2, usdcMax := 9 / 10\<rparr>"

definition rpcDown :: Replies where
  "rpcDown = okReplies\<lparr>accountsReply := None\<rparr>"

definition anchorDefaults :: AnchorConfig where
  "anchorDefaults =
     \<lparr>TOTAL_CYCLES = 10, WINDOW_SEC = 3600, USDC_MIN = 1 / 10, USDC_MAX = 2 / 10,
      JITTER_PCT = 35 / 100, MIN_DELAY = 5, FAIL_BACKOFF = 20000, IS_DRY_RUN = False,
      RETRY_MAX = 2, RETRY_BACKOFF_MS = 500, RETRY_BACKOFF_MAX_MS = 4000,
      RETRY_SLIPPAGE_STEP = 25, RETRY_SLIPPAGE_MAX = 200, RETRY_SELL_ONLY = True,
      candidates = [\<lparr>t_mint = ''X'', t_decimals = 6\<rparr>]\<rparr>"

text \<open>The quote service fails for the first three attempts and answers from then on.\<close>

definition failsThrice :: "nat \<Rightarrow> Replies" where
  "failsThrice n = (if n < 3 then quoteDown else okReplies)"

definition dryX :: DripConfig where
  "dryX = xConfig\<lparr>dryRun := True\<rparr>"

definition zeroStats :: AnchorStats where
  "zeroStats = \<lparr>success = 0, skipped = 0, failed = 0, total_cycles = 0\<rparr>"

definition twoCycles :: AnchorConfig where
  "twoCycles = anchorDefaults\<lparr>TOTAL_CYCLES := 2\<rparr>"

definition tokenX :: Token where
  "tokenX = \<lparr>t_mint = ''X'', t_decimals = 6\<rparr>"

section \<open>Scheduler bounds\<close>










section \<open>The state invariant I1 is preserved\<close>

lemma savedStates_append [simp]: "savedStates (xs @ ys) = savedStates xs @ savedStates ys"
  by (induction xs rule: savedStates.induct) simp_all

lemma trace_emit [simp]: "trace (emit e m) = trace m @ [e]"
  by (simp add: emit_def)

lemma stateFile_emit [simp]: "stateFile (emit e m) = stateFile m"
  by (simp add: emit_def)

lemma trace_sleep [simp]: "trace (sleep ms m) = trace m @ [Slept ms]"
  by (simp add: sleep_def)

lemma stateFile_sleep [simp]: "stateFile (sleep ms m) = stateFile m"
  by (simp add: sleep_def)

lemma trace_saveState [simp]: "trace (saveState st m) = trace m @ [Saved st]"
  by (simp add: saveState_def)

lemma stateFile_saveState [simp]: "stateFile (saveState st m) = Parsed st"
  by (simp add: saveState_def)

lemma I1_afterBuy: "I1 ((st :: DripState)\<lparr>cycleState := BOUGHT, currentRouteName := Some n,
   currentRouteTokenMint := Some t, lastBuyTx := tx, lastBuyTime := tm, lastBuyAmount := Some a,
   completedTrades := c\<rparr>)"
  by (simp add: I1_def)

lemma consistent_updateStateAfterBuy:
  "consistent m \<Longrightarrow> consistent (updateStateAfterBuy route tx amountRaw m)"
  by (simp add: consistent_def updateStateAfterBuy_def Let_def I1_def fileI1_def)

lemma consistent_updateStateAfterSell:
  "consistent m \<Longrightarrow> consistent (updateStateAfterSell m)"
  by (simp add: consistent_def updateStateAfterSell_def Let_def I1_def fileI1_def)

lemma consistent_sleep [simp]: "consistent (sleep ms m) = consistent m"
  by (simp add: consistent_def)

lemma consistent_emit: "\<forall>st. e \<noteq> Saved st \<Longrightarrow> consistent (emit e m) = consistent m"
  by (cases e) (simp_all add: consistent_def)

lemma consistent_attempts [simp]: "consistent (m\<lparr>attempts := n\<rparr>) = consistent m"
  by (simp add: consistent_def)

lemma consistent_submitSwap:
  "submitSwap rs m = (r, m') \<Longrightarrow> consistent m' = consistent m"
  by (auto simp: submitSwap_def consistent_emit split: if_splits option.splits Confirmation.splits)

lemma consistent_commitBuy:
  "consistent m \<Longrightarrow> consistent (snd (commitBuy route sig amt ui usdcAmt m))"
  by (simp add: commitBuy_def consistent_updateStateAfterBuy)

lemma consistent_executeBuy: "preserves consistent (executeBuy config)"
  unfolding preserves_def
  by (auto simp: executeBuy_def Let_def consistent_emit consistent_commitBuy
      split: option.splits prod.splits sum.splits
      dest!: consistent_submitSwap)

lemma consistent_sellAmount:
  "consistent m \<Longrightarrow> consistent (snd (sellAmount config rs mint stableMint amt m))"
  by (auto simp: sellAmount_def Let_def consistent_emit consistent_updateStateAfterSell
      split: option.splits prod.splits sum.splits
      dest!: consistent_submitSwap)

lemma consistent_executeSell: "preserves consistent (executeSell config isRecovery)"
  unfolding preserves_def
  by (auto simp: executeSell_def Let_def consistent_emit consistent_sellAmount
      split: option.splits prod.splits sum.splits)

lemma retryLegFrom_preserves:
  "preserves P action \<Longrightarrow> (\<forall>ms m. P m \<longrightarrow> P (sleep ms m)) \<Longrightarrow> P m
     \<Longrightarrow> P (snd (retryLegFrom config action maxRetries legName i lastError m))"
proof (induction config action maxRetries legName i lastError m rule: retryLegFrom.induct)
  case (1 config action maxRetries legName i lastError m)
  note pres = "1.prems"(1) and slp = "1.prems"(2) and pm = "1.prems"(3)
  show ?case
  proof (cases "i < maxRetries")
    case False
    with pm show ?thesis by simp
  next
    case True
    obtain r m1 where act: "action m = (r, m1)" by (cases "action m")
    from pres pm act have p1: "P m1" unfolding preserves_def by (metis snd_conv)
    show ?thesis
    proof (cases r)
      case (Inr v)
      with True act p1 show ?thesis by simp
    next
      case (Inl err)
      let ?m2 = "if i < maxRetries - 1 then sleep (failBackoffSec config * 1000) m1 else m1"
      have "P ?m2" using p1 slp by simp
      from "1.IH" [OF True act [symmetric] Inl pres slp this] True act Inl
      show ?thesis by simp
    qed
  qed
qed

lemma mainLoop_preserves:
  "preserves P (dispatchLeg config) \<Longrightarrow> (\<forall>m. P m \<longrightarrow> P (saveState (state m) m)) \<Longrightarrow> P m
     \<Longrightarrow> P (snd (mainLoop config m))"
proof (induction config m rule: mainLoop.induct)
  case (1 config m)
  note pres = "1.prems"(1) and sv = "1.prems"(2) and pm = "1.prems"(3)
  show ?case
  proof (cases "completedTrades (state m) < totalTrades config")
    case False
    with pm show ?thesis by simp
  next
    case True
    obtain r m1 where d: "dispatchLeg config m = (r, m1)" by (cases "dispatchLeg config m")
    from pres pm d have p1: "P m1" unfolding preserves_def by (metis snd_conv)
    show ?thesis
    proof (cases r)
      case (Inl err)
      with True d p1 show ?thesis by simp
    next
      case (Inr u)
      have "P (saveState (state m1) m1)" using p1 sv by simp
      from "1.IH" [OF True d [symmetric] Inr pres sv this] True d Inr
      show ?thesis by simp
    qed
  qed
qed

lemma consistent_saveState_own: "consistent m \<Longrightarrow> consistent (saveState (state m) m)"
  by (simp add: consistent_def fileI1_def)

lemma consistent_retryLeg:
  "preserves consistent action \<Longrightarrow> consistent m
     \<Longrightarrow> consistent (snd (retryLeg config action n l m))"
  unfolding retryLeg_def by (rule retryLegFrom_preserves) simp_all

lemma consistent_waitDelay [simp]: "consistent (waitDelay config m) = consistent m"
  by (simp add: waitDelay_def Let_def)

lemma consistent_resetSold: "consistent m \<Longrightarrow> consistent (resetSold m)"
  by (auto simp: resetSold_def Let_def consistent_def I1_def fileI1_def)

lemma consistent_dispatchLeg: "preserves consistent (dispatchLeg config)"
  unfolding preserves_def dispatchLeg_def Let_def
  by (simp add: consistent_retryLeg consistent_executeBuy consistent_executeSell
      consistent_resetSold)

lemma consistent_mainLoop: "consistent m \<Longrightarrow> consistent (snd (mainLoop config m))"
  by (rule mainLoop_preserves [OF consistent_dispatchLeg]) (simp_all add: consistent_saveState_own)

lemma I1_loadState: "fileI1 (stateFile m) \<Longrightarrow> I1 (loadState m)"
  by (auto simp: loadState_def fileI1_def freshState_def I1_def split: StateFile.splits)

lemma I1_reset:
  "I1 (st\<lparr>cycleState := INIT, completedTrades := 0, startTime := t, lastBuyAmount := None\<rparr>)"
  by (simp add: I1_def)

lemma consistent_recoveryPhase: "consistent m \<Longrightarrow> consistent (snd (recoveryPhase config m))"
proof -
  assume c: "consistent m"
  obtain r m1 where rl: "retryLeg config (executeSell config True) (maxSellRetries config)
                ''SELL (Recovery)'' m = (r, m1)"
    by (cases "retryLeg config (executeSell config True) (maxSellRetries config)
                ''SELL (Recovery)'' m")
  have "consistent (snd (retryLeg config (executeSell config True) (maxSellRetries config)
                ''SELL (Recovery)'' m))"
    by (rule consistent_retryLeg [OF consistent_executeSell c])
  with rl have c1: "consistent m1" by simp
  show ?thesis
    using c c1 rl
    by (cases r) (simp_all add: recoveryPhase_def Let_def consistent_def I1_reset fileI1_def)
qed

lemma consistent_run: "consistent m \<Longrightarrow> consistent (snd (run config m))"
proof -
  assume c: "consistent m"
  obtain r m1 where rp: "recoveryPhase config m = (r, m1)" by (cases "recoveryPhase config m")
  with consistent_recoveryPhase [OF c, of config] have c1: "consistent m1" by simp
  have "consistent (snd (tryBlock config m))"
    using rp c1 consistent_mainLoop [OF c1, of config]
    by (cases r) (simp_all add: tryBlock_def)
  then show ?thesis
    by (auto simp: run_def printEndSummary_def consistent_emit split: prod.splits sum.splits)
qed

lemma consistent_construct:
  "fileI1 (stateFile m) \<Longrightarrow> list_all I1 (savedStates (trace m)) \<Longrightarrow> consistent (construct m)"
  by (simp add: construct_def consistent_def I1_loadState)

text \<open>
  C3. Invariant I1 holds in every state the engine persists: the cycle state is BOUGHT
  exactly when the route name, the route's token mint and the last buy amount are all
  non-null. The states written by \<open>updateStateAfterBuy\<close> and \<open>updateStateAfterSell\<close> and by
  the reset after recovery satisfy it; \<open>loadState\<close> returns a state that satisfies it when
  the state file holds one; and when the state file and the states saved so far satisfy
  it, so do every state a whole process (\<open>main\<close>) saves, the file it leaves and its final
  state.
\<close>

theorem I1_persisted:
  "I1 (state (updateStateAfterBuy route tx amountRaw m))
   \<and> I1 (state (updateStateAfterSell m))
   \<and> I1 ((loadState m)\<lparr>cycleState := INIT, completedTrades := 0, startTime := clock m,
                         lastBuyAmount := None\<rparr>)
   \<and> (fileI1 (stateFile m) \<longrightarrow> I1 (loadState m))
   \<and> (fileI1 (stateFile m) \<and> list_all I1 (savedStates (trace m)) \<longrightarrow>
        list_all I1 (savedStates (trace (snd (main config m))))
        \<and> fileI1 (stateFile (snd (main config m)))
        \<and> I1 (state (snd (main config m))))"
proof -
  have "consistent (snd (main config m))"
    if "fileI1 (stateFile m)" "list_all I1 (savedStates (trace m))"
    using consistent_run [OF consistent_construct [OF that], of config]
    by (auto simp: main_def split: prod.splits sum.splits)
  then show ?thesis
    by (simp add: I1_loadState I1_reset consistent_def)
      (simp add: updateStateAfterBuy_def updateStateAfterSell_def Let_def I1_def)
qed

section \<open>Sell-amount binding\<close>

lemma quoteAmounts_append [simp]: "quoteAmounts (xs @ ys) = quoteAmounts xs @ quoteAmounts ys"
  by (induction xs rule: quoteAmounts.induct) simp_all

lemma quoteSlippages_append [simp]:
  "quoteSlippages (xs @ ys) = quoteSlippages xs @ quoteSlippages ys"
  by (induction xs rule: quoteSlippages.induct) simp_all

lemma sleeps_append [simp]: "sleeps (xs @ ys) = sleeps xs @ sleeps ys"
  by (induction xs rule: sleeps.induct) simp_all

lemma entries_append [simp]: "entries k (xs @ ys) = entries k xs + entries k ys"
  by (simp add: entries_def)

lemma quoteInputs_append [simp]: "quoteInputs (xs @ ys) = quoteInputs xs @ quoteInputs ys"
  by (induction xs rule: quoteInputs.induct) simp_all

lemma completedSells_append [simp]:
  "completedSells (xs @ ys) = completedSells xs + completedSells ys"
  by (simp add: completedSells_def)

lemma trace_attempts [simp]: "trace (m\<lparr>attempts := n\<rparr>) = trace m"
  by simp




lemma diffBelowTolerance_iff:
  "0 < target \<Longrightarrow> diffBelowTolerance target bal = (50 * (target - bal) < target)"
proof -
  assume pos: "0 < target"
  have "((of_int (target - bal) :: real) / of_int target < 2 / 100)
          = ((of_int (target - bal) :: real) < 2 / 100 * of_int target)"
    using pos by (simp add: pos_divide_less_eq)
  also have "\<dots> = ((of_int (50 * (target - bal)) :: real) < of_int target)"
    by (simp add: algebra_simps)
  also have "\<dots> = (50 * (target - bal) < target)"
    by (simp only: of_int_less_iff)
  finally show ?thesis using pos by (simp add: diffBelowTolerance_def)
qed

lemma executeSell_resolved:
  assumes "currentRouteName (state m) = Some rn" "rn \<noteq> []"
    and "currentRouteTokenMint (state m) = Some mint" "mint \<noteq> []"
    and "lastBuyAmount (state m) = Some s" "s \<noteq> []" "BigInt s = Some target"
  shows "executeSell config isRecovery m =
    (let rs = replies m (attempts m);
         m1 = emit (Entered SELL) (m\<lparr>attempts := attempts m + 1\<rparr>);
         stableMint = (case find (\<lambda>r. tokenMint r = mint) (routes config) of
                         Some r \<Rightarrow> usdcMint r | None \<Rightarrow> USDC_MINT)
     in case resolveSellAmount config rs mint target of
          Inl e \<Rightarrow> (Inl e, m1)
        | Inr amountToSell \<Rightarrow> sellAmount config rs mint stableMint amountToSell m1)"
  using assms by (simp add: executeSell_def Let_def falsy_def)


lemma BigInt_500000: "BigInt ''500000'' = Some 500000"
  by (simp add: BigInt_def digitValue_def)






section \<open>Evaluating whole runs\<close>

lemmas run_defs = main_def construct_def run_def tryBlock_def recoveryPhase_def
  printEndSummary_def retryLeg_def dispatchLeg_def waitDelay_def resetSold_def
  loadState_def freshState_def saveState_def emit_def sleep_def Let_def falsy_def

lemmas sell_defs = executeSell_def resolveSellAmount_def getSwapTokenBalance_def
  getTokenBalance_def validateSellAmount_def diffBelowTolerance_def sellAmount_def
  submitSwap_def updateStateAfterSell_def WSOL_MINT_def USDC_MINT_def

lemmas buy_defs = executeBuy_def pickRandomRoute_def randomFloat_def toRawAmount_def
  getDecimals_def KNOWN_DECIMALS_def toUiAmount_def commitBuy_def suspiciousBuy_def
  updateStateAfterBuy_def

lemmas example_defs = bootMachine_def boughtState_def xConfig_def okReplies_def
  walletHolds_def holding_def initialState_def defaultConfig_def

theorem I1_persisted_witness:
  "fileI1 (stateFile (bootMachine (\<lambda>n. okReplies) (Parsed boughtState)))
   \<and> list_all I1 (savedStates (trace (bootMachine (\<lambda>n. okReplies) (Parsed boughtState))))
   \<and> length (savedStates (trace (snd (main xConfig
         (bootMachine (\<lambda>n. okReplies) (Parsed boughtState)))))) = 2
   \<and> list_all I1 (savedStates (trace (snd (main xConfig
         (bootMachine (\<lambda>n. okReplies) (Parsed boughtState))))))
   \<and> I1 (state (snd (main xConfig (bootMachine (\<lambda>n. okReplies) (Parsed boughtState)))))"
proof -
  let ?m = "bootMachine (\<lambda>n. okReplies) (Parsed boughtState)"
  have h: "fileI1 (stateFile ?m) \<and> list_all I1 (savedStates (trace ?m))"
    by (simp add: bootMachine_def boughtState_def fileI1_def I1_def)
  have len: "length (savedStates (trace (snd (main xConfig ?m)))) = 2"
    by (simp add: run_defs sell_defs example_defs BigInt_500000)
  from I1_persisted [where m = ?m and config = xConfig] h len
  show ?thesis by simp
qed

section \<open>Exit status\<close>




section \<open>Safety violations under retryLeg\<close>

lemma BigInt_100000000: "BigInt ''100000000'' = Some 100000000"
  by (simp add: BigInt_def digitValue_def)

text \<open>
  \<open>retryLeg\<close> catches every error alike: when an attempt throws and it was not the last,
  the loop sleeps and calls the action again, whatever the error was.
\<close>

lemma retryLeg_retries_every_error:
  assumes "action m = (Inl e, m1)" and "1 < maxRetries"
  shows "retryLeg config action maxRetries legName m
           = retryLegFrom config action maxRetries legName 1 (Some e)
               (sleep (failBackoffSec config * 1000) m1)"
  using assms by (simp add: retryLeg_def)

text \<open>
  C8 at a failing input. The buy of SOL for less than one USDC is quoted 0.1 SOL; the swap
  is submitted and confirmed and the state is updated; then the sanity guard throws.
  \<open>retryLeg\<close> re-attempts the buy: three buys are entered and three swaps submitted before
  the run aborts.
\<close>

theorem suspicious_buy_retried:
  "fst (tryBlock solConfig (construct (bootMachine (\<lambda>n. cheapSol) Missing)))
     = Inl (Exhausted 3 ''BUY'' (Some SuspiciousBuyAmount))
   \<and> entries BUY (trace (snd (main solConfig (bootMachine (\<lambda>n. cheapSol) Missing)))) = 3
   \<and> submitted (trace (snd (main solConfig (bootMachine (\<lambda>n. cheapSol) Missing))))
       = [''sig'', ''sig'', ''sig'']
   \<and> sleeps (trace (snd (main solConfig (bootMachine (\<lambda>n. cheapSol) Missing))))
       = [5000, 30000, 30000]"
  by (simp add: run_defs buy_defs example_defs solConfig_def cheapSol_def BigInt_100000000
      entries_def calculateDelay_def ESTIMATED_EXEC_MS_def SAFETY_FACTOR_def
      WSOL_MINT_def USDC_MINT_def submitSwap_def)

section \<open>Balance queries during an RPC outage\<close>

lemma getTokenBalance_outage: "lookupFails rs \<Longrightarrow> getTokenBalance rs = (0, 6)"
  by (auto simp: lookupFails_def getTokenBalance_def split: option.splits list.splits)

lemma getSwapTokenBalance_outage:
  "lookupFails rs \<Longrightarrow> mint \<noteq> WSOL_MINT \<Longrightarrow> getSwapTokenBalance rs mint = Inr 0"
  by (simp add: getSwapTokenBalance_def getTokenBalance_outage)

text \<open>
  C10, as amended. When the token-account lookup fails or finds no token account,
  \<open>getTokenBalance\<close> returns amount 0 with decimals 6 instead of raising; so
  \<open>getSwapTokenBalance\<close> reports 0 for every mint but wrapped SOL; and an attempt of a sell
  leg in a real run that holds a route and a positive recorded amount observes a shortfall
  of 100 percent and raises the balance safety error, not an RPC error, before any quote
  is requested and without changing the state.
\<close>

theorem outage_reads_zero_balance:
  "(lookupFails rs \<longrightarrow> getTokenBalance rs = (0, 6))
   \<and> (lookupFails rs \<and> mint \<noteq> WSOL_MINT \<longrightarrow> getSwapTokenBalance rs mint = Inr 0)
   \<and> (lookupFails (replies m (attempts m)) \<and> mint \<noteq> WSOL_MINT \<and> \<not> dryRun config
        \<and> currentRouteName (state m) = Some rn \<and> rn \<noteq> []
        \<and> currentRouteTokenMint (state m) = Some mint \<and> mint \<noteq> []
        \<and> lastBuyAmount (state m) = Some s \<and> s \<noteq> [] \<and> BigInt s = Some target
        \<and> 0 < target \<longrightarrow>
          fst (executeSell config isRecovery m) = Inl (BalanceTooLow 0 target)
          \<and> isSafetyViolation (BalanceTooLow 0 target)
          \<and> (of_int (target - 0) :: real) / of_int target = 1
          \<and> quoteAmounts (trace (snd (executeSell config isRecovery m)))
              = quoteAmounts (trace m)
          \<and> state (snd (executeSell config isRecovery m)) = state m)"
proof -
  have sell: "fst (executeSell config isRecovery m) = Inl (BalanceTooLow 0 target)
          \<and> isSafetyViolation (BalanceTooLow 0 target)
          \<and> (of_int (target - 0) :: real) / of_int target = 1
          \<and> quoteAmounts (trace (snd (executeSell config isRecovery m)))
              = quoteAmounts (trace m)
          \<and> state (snd (executeSell config isRecovery m)) = state m"
    if out: "lookupFails (replies m (attempts m))" and w: "mint \<noteq> WSOL_MINT"
      and real: "\<not> dryRun config"
      and route: "currentRouteName (state m) = Some rn" "rn \<noteq> []"
        "currentRouteTokenMint (state m) = Some mint" "mint \<noteq> []"
      and amount: "lastBuyAmount (state m) = Some s" "s \<noteq> []" "BigInt s = Some target"
      and pos: "0 < target"
  proof -
    have bal: "getSwapTokenBalance (replies m (attempts m)) mint = Inr 0"
      using out w by (rule getSwapTokenBalance_outage)
    have "\<not> diffBelowTolerance target 0"
      using pos by (simp add: diffBelowTolerance_iff)
    then have "validateSellAmount target 0 = Inl (BalanceTooLow 0 target)"
      using pos by (simp add: validateSellAmount_def)
    then have "resolveSellAmount config (replies m (attempts m)) mint target
                 = Inl (BalanceTooLow 0 target)"
      using real bal by (simp add: resolveSellAmount_def)
    then show ?thesis
      using pos by (simp add: executeSell_resolved [OF route amount] Let_def)
  qed
  show ?thesis
    using sell by (auto simp: getTokenBalance_outage getSwapTokenBalance_outage)
qed

theorem outage_reads_zero_balance_witness:
  "lookupFails rpcDown \<and> getTokenBalance rpcDown = (0, 6)
   \<and> getSwapTokenBalance rpcDown ''X'' = Inr 0
   \<and> fst (executeSell xConfig False (holding (\<lambda>n. rpcDown))) = Inl (BalanceTooLow 0 500000)"
proof -
  have out: "lookupFails rpcDown" by (simp add: lookupFails_def rpcDown_def)
  have x: "''X'' \<noteq> WSOL_MINT" by (simp add: WSOL_MINT_def)
  have h: "lookupFails (replies (holding (\<lambda>n. rpcDown)) (attempts (holding (\<lambda>n. rpcDown))))
        \<and> ''X'' \<noteq> WSOL_MINT \<and> \<not> dryRun xConfig
        \<and> currentRouteName (state (holding (\<lambda>n. rpcDown))) = Some ''X-USDC''
        \<and> ''X-USDC'' \<noteq> []
        \<and> currentRouteTokenMint (state (holding (\<lambda>n. rpcDown))) = Some ''X'' \<and> ''X'' \<noteq> []
        \<and> lastBuyAmount (state (holding (\<lambda>n. rpcDown))) = Some ''500000''
        \<and> ''500000'' \<noteq> []
        \<and> BigInt ''500000'' = Some 500000 \<and> (0 :: int) < 500000"
    using out x by (simp add: holding_def bootMachine_def boughtState_def xConfig_def BigInt_500000)
  from outage_reads_zero_balance [of rpcDown "''X''" "holding (\<lambda>n. rpcDown)" xConfig
      "''X-USDC''" "''500000''" 500000 False] out x h
  show ?thesis by blast
qed

text \<open>
  C10 as stated fails where it says the leg aborts fatally instead of surfacing a
  retryable failure: \<open>retryLeg\<close> retries the balance safety error like any other. With the
  RPC node down during the first attempt of the recovery sell only, the first attempt
  raises the balance error, the second sells the recorded amount, and the run goes on.
\<close>

theorem outage_retried_counterexample:
  "fst (executeSell xConfig True (construct (bootMachine (\<lambda>n. if n = 0 then rpcDown else okReplies)
          (Parsed boughtState)))) = Inl (BalanceTooLow 0 500000)
   \<and> fst (tryBlock xConfig (construct (bootMachine (\<lambda>n. if n = 0 then rpcDown else okReplies)
          (Parsed boughtState)))) = Inr ()
   \<and> quoteAmounts (trace (snd (main xConfig
         (bootMachine (\<lambda>n. if n = 0 then rpcDown else okReplies) (Parsed boughtState)))))
       = [500000]
   \<and> entries SELL (trace (snd (main xConfig
         (bootMachine (\<lambda>n. if n = 0 then rpcDown else okReplies) (Parsed boughtState))))) = 2"
  by (simp add: run_defs sell_defs example_defs rpcDown_def BigInt_500000 entries_def)

section \<open>Recovery after a crash\<close>


lemma entries_Nil [simp]: "entries k [] = 0"
  by (simp add: entries_def)

lemma entries_Cons [simp]:
  "entries k (e # es) = (if e = Entered k then 1 else 0) + entries k es"
  by (simp add: entries_def)


















section \<open>The retry policy\<close>

lemma claimedSlippage_le:
  "base \<le> RETRY_SLIPPAGE_MAX cfg \<Longrightarrow> claimedSlippage cfg base k \<le> RETRY_SLIPPAGE_MAX cfg"
  by (induction k) simp_all

lemma codeSlippage_claimed:
  assumes "base \<le> RETRY_SLIPPAGE_MAX cfg" and "0 \<le> RETRY_SLIPPAGE_STEP cfg"
  shows "codeSlippage cfg base k = claimedSlippage cfg base k"
proof (induction k)
  case 0
  show ?case by (simp add: codeSlippage_def)
next
  case (Suc k)
  from claimedSlippage_le [OF assms(1), of k] assms(2)
  have "nextSlippage cfg (claimedSlippage cfg base k) = claimedSlippage cfg base (Suc k)"
    by (auto simp: nextSlippage_def Let_def min_def)
  with Suc show ?case by (simp add: codeSlippage_def)
qed

lemma codeSlippage_Suc: "nextSlippage cfg (codeSlippage cfg base k) = codeSlippage cfg base (Suc k)"
  by (simp add: codeSlippage_def)

lemma nextBackoff_claimed: "1 \<le> a \<Longrightarrow> nextBackoff cfg a = claimedBackoff cfg (nat a)"
  by (auto simp: nextBackoff_def claimedBackoff_def Let_def min_def nat_diff_distrib)

lemma swapAttempt_frame:
  assumes "swapAttempt cfg req cur m = (r, m')"
  shows "attempts m' = attempts m + 1"
    and "quoteSlippages (trace m') = quoteSlippages (trace m) @ [cur]"
    and "sleeps (trace m') = sleeps (trace m)"
    and "entries k (trace m')
           = entries k (trace m) + (if k = (if isBuy req then BUY else SELL) then 1 else 0)"
  using assms
  by (auto simp: swapAttempt_def Let_def submitSwap_def emit_def
      split: option.splits if_splits prod.splits sum.splits Confirmation.splits)

lemma followsPolicy_none: "followsPolicy cfg req base a k m m 0"
  by (simp add: followsPolicy_def)

lemma followsPolicy_one:
  assumes "swapAttempt cfg req (codeSlippage cfg base k) m = (r, m1)"
  shows "followsPolicy cfg req base a k m m1 1"
  using swapAttempt_frame [OF assms]
  by (simp add: followsPolicy_def legKindOf_def)

lemma followsPolicy_step:
  assumes att: "swapAttempt cfg req (codeSlippage cfg base k) m = (r, m1)"
    and rest: "followsPolicy cfg req base (Suc a) (Suc k) (sleep (claimedBackoff cfg a) m1) m' n"
    and n: "1 \<le> n"
  shows "followsPolicy cfg req base a k m m' (Suc n)"
proof -
  note f = swapAttempt_frame [OF att]
  from rest have r: "attempts m' = attempts m1 + n"
    "quoteSlippages (trace m')
       = quoteSlippages (trace m1) @ map (codeSlippage cfg base) [Suc k..<Suc k + n]"
    "sleeps (trace m') = sleeps (trace m1) @ [claimedBackoff cfg a]
       @ map (claimedBackoff cfg) [Suc a..<Suc a + (n - 1)]"
    "entries (legKindOf req) (trace m') = entries (legKindOf req) (trace m1) + n"
    by (simp_all add: followsPolicy_def sleep_def emit_def)
  have u1: "[k..<k + Suc n] = k # [Suc k..<Suc k + n]"
    by (simp add: upt_conv_Cons)
  have u2: "[a..<a + (Suc n - 1)] = a # [Suc a..<Suc a + (n - 1)]"
    using n by (simp add: upt_conv_Cons)
  show ?thesis
    unfolding followsPolicy_def u1 u2
    using r f by (simp add: legKindOf_def)
qed

lemma swapRetryFrom_policy:
  assumes "swapRetryFrom cfg req maxAttempts attempt cur lastError m = (r, m')"
    and "1 \<le> attempt" and "cur = codeSlippage cfg base k"
  shows "\<exists>n. followsPolicy cfg req base (nat attempt) k m m' n
           \<and> int n \<le> max 0 (maxAttempts + 1 - attempt)
           \<and> (attempt \<le> maxAttempts \<longrightarrow> 1 \<le> n)
           \<and> ((\<exists>e. r = Inl e) \<longrightarrow> int n = max 0 (maxAttempts + 1 - attempt))"
  using assms
proof (induction cfg req maxAttempts attempt cur lastError m arbitrary: k
    rule: swapRetryFrom.induct)
  case (1 cfg req maxAttempts attempt cur lastError m)
  note run = "1.prems"(1) and pos = "1.prems"(2) and cur = "1.prems"(3)
  show ?case
  proof (cases "attempt \<le> maxAttempts")
    case False
    with run have "m' = m" "\<exists>e. r = Inl e"
      by (auto split: option.splits)
    with False show ?thesis
      by (intro exI [of _ 0]) (simp add: followsPolicy_none)
  next
    case True
    obtain r1 m1 where att: "swapAttempt cfg req cur m = (r1, m1)"
      by (cases "swapAttempt cfg req cur m")
    note att' = att [unfolded cur]
    show ?thesis
    proof (cases r1)
      case (Inr res)
      with True att run have "m' = m1" "r = Inr res" by simp_all
      with True followsPolicy_one [OF att'] show ?thesis
        by (intro exI [of _ 1]) simp
    next
      case (Inl err)
      show ?thesis
      proof (cases "attempt = maxAttempts")
        case last: True
        from True att Inl last run
        have "swapRetryFrom cfg req maxAttempts (attempt + 1) cur (Some err) m1 = (r, m')"
          by simp
        with last have "m' = m1" "r = Inl err" by simp_all
        with last followsPolicy_one [OF att'] show ?thesis
          by (intro exI [of _ 1]) simp
      next
        case notlast: False
        let ?m2 = "sleep (nextBackoff cfg attempt) m1"
        from True att Inl notlast run
        have rec: "swapRetryFrom cfg req maxAttempts (attempt + 1) (nextSlippage cfg cur)
                     (Some err) ?m2 = (r, m')"
          by simp
        have cur': "nextSlippage cfg cur = codeSlippage cfg base (Suc k)"
          unfolding cur by (rule codeSlippage_Suc)
        from "1.IH"(1) [OF True att [symmetric] Inl notlast rec _ cur'] pos
        obtain n where fp: "followsPolicy cfg req base (nat (attempt + 1)) (Suc k) ?m2 m' n"
          and le: "int n \<le> max 0 (maxAttempts + 1 - (attempt + 1))"
          and ge: "attempt + 1 \<le> maxAttempts \<longrightarrow> 1 \<le> n"
          and ex: "(\<exists>e. r = Inl e) \<longrightarrow> int n = max 0 (maxAttempts + 1 - (attempt + 1))"
          by auto
        from True notlast have lt: "attempt + 1 \<le> maxAttempts" by simp
        with ge have n1: "1 \<le> n" by simp
        have sa: "nat (attempt + 1) = Suc (nat attempt)" using pos by simp
        have nb: "nextBackoff cfg attempt = claimedBackoff cfg (nat attempt)"
          using pos by (rule nextBackoff_claimed)
        from followsPolicy_step [OF att' fp [unfolded sa nb] n1]
        have "followsPolicy cfg req base (nat attempt) k m m' (Suc n)" .
        moreover from le lt have "int (Suc n) \<le> max 0 (maxAttempts + 1 - attempt)" by simp
        moreover from ex lt have "(\<exists>e. r = Inl e) \<longrightarrow>
            int (Suc n) = max 0 (maxAttempts + 1 - attempt)"
          by auto
        ultimately show ?thesis by (intro exI [of _ "Suc n"]) simp
      qed
    qed
  qed
qed

lemma executeSwapWithRetry_policy:
  assumes "executeSwapWithRetry cfg req m = (r, m')"
  shows "\<exists>n. followsPolicy cfg req (baseSlippageBps req) 1 0 m m' n
           \<and> 1 \<le> n \<and> int n \<le> maxAttemptsFor cfg req
           \<and> ((\<exists>e. r = Inl e) \<longrightarrow> int n = maxAttemptsFor cfg req)"
proof -
  have m1: "1 \<le> maxAttemptsFor cfg req" by (simp add: maxAttemptsFor_def)
  from swapRetryFrom_policy [OF assms [unfolded executeSwapWithRetry_def], of "baseSlippageBps req" 0]
  obtain n where "followsPolicy cfg req (baseSlippageBps req) (nat 1) 0 m m' n"
    "int n \<le> max 0 (maxAttemptsFor cfg req + 1 - 1)"
    "1 \<le> maxAttemptsFor cfg req \<longrightarrow> 1 \<le> n"
    "(\<exists>e. r = Inl e) \<longrightarrow> int n = max 0 (maxAttemptsFor cfg req + 1 - 1)"
    by (auto simp: codeSlippage_def)
  with m1 show ?thesis by (intro exI [of _ n]) simp
qed

lemma submitSwap_slippages:
  "submitSwap rs m = (r, m') \<Longrightarrow> quoteSlippages (trace m') = quoteSlippages (trace m)"
  by (auto simp: submitSwap_def split: if_splits option.splits Confirmation.splits)

lemma executeSell_slippages:
  "set (quoteSlippages (trace (snd (executeSell config b m))))
     \<subseteq> set (quoteSlippages (trace m)) \<union> {fixedSlippage config}"
  by (auto simp: executeSell_def sellAmount_def Let_def fixedSlippage_def
      updateStateAfterSell_def
      split: option.splits if_splits prod.splits sum.splits dest!: submitSwap_slippages)

lemma executeBuy_slippages:
  "set (quoteSlippages (trace (snd (executeBuy config m))))
     \<subseteq> set (quoteSlippages (trace m)) \<union> {fixedSlippage config}"
  by (auto simp: executeBuy_def commitBuy_def Let_def fixedSlippage_def
      updateStateAfterBuy_def
      split: option.splits if_splits prod.splits sum.splits dest!: submitSwap_slippages)

lemma retryLeg_slippages:
  assumes "\<And>m. set (quoteSlippages (trace (snd (action m))))
             \<subseteq> set (quoteSlippages (trace m)) \<union> {fixed}"
  shows "set (quoteSlippages (trace (snd (retryLeg config action n l m))))
           \<subseteq> set (quoteSlippages (trace m)) \<union> {fixed}"
proof -
  let ?P = "\<lambda>x. set (quoteSlippages (trace x)) \<subseteq> set (quoteSlippages (trace m)) \<union> {fixed}"
  have "?P (snd (retryLegFrom config action n l 0 None m))"
  proof (rule retryLegFrom_preserves [where P = ?P])
    show "preserves ?P action"
      unfolding preserves_def using assms by blast
    show "\<forall>ms x. ?P x \<longrightarrow> ?P (sleep ms x)" by simp
    show "?P m" by blast
  qed
  then show ?thesis by (simp add: retryLeg_def)
qed

text \<open>
  C5, as amended. In the anchor round-trip mode every leg retried by
  \<open>executeSwapWithRetry\<close> whose base tolerance does not exceed the maximum, with a
  non-negative step, is quoted at the base tolerance on the first attempt and at the
  previous tolerance raised by the step, capped at the maximum, on each retry. In
  \<open>MultiRouteDrip\<close> every attempt of a leg under \<open>retryLeg\<close>, buy or sell, is quoted at one
  fixed tolerance: 100 bps in a real run, 50 bps in a dry run.
\<close>

theorem slippage_escalation:
  "(executeSwapWithRetry cfg req m = (r, m')
      \<and> baseSlippageBps req \<le> RETRY_SLIPPAGE_MAX cfg \<and> 0 \<le> RETRY_SLIPPAGE_STEP cfg \<longrightarrow>
        quoteSlippages (trace m')
          = quoteSlippages (trace m)
            @ map (claimedSlippage cfg (baseSlippageBps req)) [0..<attempts m' - attempts m])
   \<and> set (quoteSlippages (trace (snd (retryLeg config (executeBuy config) n l mb))))
        \<subseteq> set (quoteSlippages (trace mb)) \<union> {fixedSlippage config}
   \<and> set (quoteSlippages (trace (snd (retryLeg config (executeSell config isRecovery) n l ms))))
        \<subseteq> set (quoteSlippages (trace ms)) \<union> {fixedSlippage config}"
proof -
  have "quoteSlippages (trace m')
          = quoteSlippages (trace m)
            @ map (claimedSlippage cfg (baseSlippageBps req)) [0..<attempts m' - attempts m]"
    if run: "executeSwapWithRetry cfg req m = (r, m')"
      and cap: "baseSlippageBps req \<le> RETRY_SLIPPAGE_MAX cfg"
      and step: "0 \<le> RETRY_SLIPPAGE_STEP cfg"
  proof -
    from executeSwapWithRetry_policy [OF run]
    obtain k where "followsPolicy cfg req (baseSlippageBps req) 1 0 m m' k" by blast
    then have "attempts m' - attempts m = k"
      and "quoteSlippages (trace m')
             = quoteSlippages (trace m) @ map (codeSlippage cfg (baseSlippageBps req)) [0..<k]"
      by (simp_all add: followsPolicy_def)
    then show ?thesis
      by (simp add: codeSlippage_claimed [OF cap step])
  qed
  then show ?thesis
    using retryLeg_slippages [of "executeBuy config" "fixedSlippage config", OF executeBuy_slippages]
      retryLeg_slippages [of "executeSell config isRecovery" "fixedSlippage config",
        OF executeSell_slippages]
    by blast
qed

lemmas anchor_defs = executeSwapWithRetry_def maxAttemptsFor_def swapAttempt_def
  nextSlippage_def nextBackoff_def submitSwap_def sellRequest_def buyRequest_def
  anchorDefaults_def failsThrice_def quoteDown_def okReplies_def bootMachine_def
  Let_def emit_def sleep_def USDC_MINT_def

lemma BigInt_1500000: "BigInt ''1500000'' = Some 1500000"
  by (simp add: BigInt_def digitValue_def)

lemma scenarioC:
  "quoteSlippages (trace (snd (executeSwapWithRetry (anchorDefaults\<lparr>RETRY_MAX := 5\<rparr>)
       (sellRequest \<lparr>t_mint = ''X'', t_decimals = 6\<rparr> 500000 2) (bootMachine failsThrice Missing))))
     = [50, 75, 100, 125]
   \<and> sleeps (trace (snd (executeSwapWithRetry (anchorDefaults\<lparr>RETRY_MAX := 5\<rparr>)
       (sellRequest \<lparr>t_mint = ''X'', t_decimals = 6\<rparr> 500000 2) (bootMachine failsThrice Missing))))
     = [500, 1000, 2000]
   \<and> attempts (snd (executeSwapWithRetry (anchorDefaults\<lparr>RETRY_MAX := 5\<rparr>)
       (sellRequest \<lparr>t_mint = ''X'', t_decimals = 6\<rparr> 500000 2) (bootMachine failsThrice Missing)))
     = 4"
  by (simp add: anchor_defs BigInt_500000 BigInt_1500000)

text \<open>
  Scenario C in the anchor mode: base 50 bps, step 25, maximum 200, five attempts allowed;
  the first three attempts of the sell fail. The four quotes are at 50, 75, 100, 125 bps.
\<close>

theorem slippage_escalation_witness:
  "baseSlippageBps (sellRequest \<lparr>t_mint = ''X'', t_decimals = 6\<rparr> 500000 2)
     \<le> RETRY_SLIPPAGE_MAX (anchorDefaults\<lparr>RETRY_MAX := 5\<rparr>)
   \<and> 0 \<le> RETRY_SLIPPAGE_STEP (anchorDefaults\<lparr>RETRY_MAX := 5\<rparr>)
   \<and> quoteSlippages (trace (snd (executeSwapWithRetry (anchorDefaults\<lparr>RETRY_MAX := 5\<rparr>)
       (sellRequest \<lparr>t_mint = ''X'', t_decimals = 6\<rparr> 500000 2) (bootMachine failsThrice Missing))))
     = map (claimedSlippage (anchorDefaults\<lparr>RETRY_MAX := 5\<rparr>) 50) [0, 1, 2, 3]
   \<and> map (claimedSlippage (anchorDefaults\<lparr>RETRY_MAX := 5\<rparr>) 50) [0, 1, 2, 3]
     = [50, 75, 100, 125]"
proof -
  let ?cfg = "anchorDefaults\<lparr>RETRY_MAX := 5\<rparr>"
  let ?req = "sellRequest \<lparr>t_mint = ''X'', t_decimals = 6\<rparr> 500000 2"
  let ?m = "bootMachine failsThrice Missing"
  let ?x = "executeSwapWithRetry ?cfg ?req ?m"
  have h: "baseSlippageBps ?req \<le> RETRY_SLIPPAGE_MAX ?cfg" "0 \<le> RETRY_SLIPPAGE_STEP ?cfg"
    and b: "baseSlippageBps ?req = 50"
    by (simp_all add: sellRequest_def anchorDefaults_def)
  have pair: "?x = (fst ?x, snd ?x)" by simp
  have n: "attempts (snd ?x) - attempts ?m = 4" and t: "trace ?m = []"
    using scenarioC by (simp_all add: bootMachine_def)
  have u: "[0..<4] = [0, 1, 2, 3 :: nat]" by (simp add: upt_rec)
  have v: "map (claimedSlippage ?cfg 50) [0, 1, 2, 3] = [50, 75, 100, 125]"
    by (simp add: anchorDefaults_def eval_nat_numeral)
  from slippage_escalation [of ?cfg ?req ?m "fst ?x" "snd ?x"] pair h
  have "quoteSlippages (trace (snd ?x))
          = quoteSlippages (trace ?m) @ map (claimedSlippage ?cfg (baseSlippageBps ?req))
              [0..<attempts (snd ?x) - attempts ?m]"
    by blast
  with h n t u v b show ?thesis by simp
qed

text \<open>
  C5 as stated fails for a leg retried by \<open>retryLeg\<close>: in a dry run the sell whose first
  three attempts fail is quoted four times at 50 bps.
\<close>

theorem fixed_slippage_counterexample:
  "quoteSlippages (trace (snd (retryLeg dryX (executeSell dryX False) (maxSellRetries dryX)
      ''SELL'' (holding failsThrice)))) = [50, 50, 50, 50]
   \<and> entries SELL (trace (snd (retryLeg dryX (executeSell dryX False) (maxSellRetries dryX)
      ''SELL'' (holding failsThrice)))) = 4
   \<and> fst (retryLeg dryX (executeSell dryX False) (maxSellRetries dryX)
      ''SELL'' (holding failsThrice)) = Inr ()"
  by (simp add: run_defs sell_defs example_defs dryX_def failsThrice_def quoteDown_def
      BigInt_500000)









lemma retryLegFrom_count:
  assumes "retryLegFrom config action maxRetries legName i lastError m = (r, m')"
    and "\<forall>x. attempts (snd (action x)) = attempts x + 1"
  shows "\<exists>n. attempts m' = attempts m + n
           \<and> int n \<le> max 0 (maxRetries - i)
           \<and> ((\<exists>e. r = Inl e) \<longrightarrow> int n = max 0 (maxRetries - i))"
  using assms
proof (induction config action maxRetries legName i lastError m rule: retryLegFrom.induct)
  case (1 config action maxRetries legName i lastError m)
  note run = "1.prems"(1) and act1 = "1.prems"(2)
  show ?case
  proof (cases "i < maxRetries")
    case False
    with run have "m' = m" by simp
    with False show ?thesis by (intro exI [of _ 0]) auto
  next
    case True
    obtain r1 m1 where act: "action m = (r1, m1)" by (cases "action m")
    from act1 [rule_format, of m] act have a1: "attempts m1 = attempts m + 1" by simp
    show ?thesis
    proof (cases r1)
      case (Inr u)
      with True act run have "m' = m1" "r = Inr ()" by simp_all
      with True a1 show ?thesis by (intro exI [of _ 1]) simp
    next
      case (Inl err)
      let ?m2 = "if i < maxRetries - 1 then sleep (failBackoffSec config * 1000) m1 else m1"
      from True act Inl run
      have rec: "retryLegFrom config action maxRetries legName (i + 1) (Some err) ?m2 = (r, m')"
        by simp
      from "1.IH" [OF True act [symmetric] Inl rec act1]
      obtain n where at: "attempts m' = attempts ?m2 + n"
        and le: "int n \<le> max 0 (maxRetries - (i + 1))"
        and ex: "(\<exists>e. r = Inl e) \<longrightarrow> int n = max 0 (maxRetries - (i + 1))"
        by blast
      have "attempts ?m2 = attempts m1" by (simp add: sleep_def emit_def)
      with at a1 have "attempts m' = attempts m + Suc n" by simp
      moreover from le True have "int (Suc n) \<le> max 0 (maxRetries - i)" by simp
      moreover from ex True have "(\<exists>e. r = Inl e) \<longrightarrow> int (Suc n) = max 0 (maxRetries - i)"
        by auto
      ultimately show ?thesis by (intro exI [of _ "Suc n"]) simp
    qed
  qed
qed

lemma submitSwap_attempts: "submitSwap rs m = (r, m') \<Longrightarrow> attempts m' = attempts m"
  by (auto simp: submitSwap_def emit_def split: if_splits option.splits Confirmation.splits)

lemma executeSell_attempt: "attempts (snd (executeSell config b m)) = attempts m + 1"
  by (auto simp: executeSell_def sellAmount_def Let_def updateStateAfterSell_def
      saveState_def emit_def sleep_def
      split: option.splits if_splits prod.splits sum.splits dest!: submitSwap_attempts)

lemma executeBuy_attempt: "attempts (snd (executeBuy config m)) = attempts m + 1"
  by (auto simp: executeBuy_def commitBuy_def Let_def updateStateAfterBuy_def
      saveState_def emit_def sleep_def
      split: option.splits if_splits prod.splits sum.splits dest!: submitSwap_attempts)

lemma retryLeg_count:
  assumes "retryLeg config action n l m = (r, m')"
    and "\<forall>x. attempts (snd (action x)) = attempts x + 1"
  shows "int (attempts m' - attempts m) \<le> max 0 n
         \<and> ((\<exists>e. r = Inl e) \<longrightarrow> int (attempts m' - attempts m) = max 0 n)"
  using retryLegFrom_count [OF assms(1) [unfolded retryLeg_def] assms(2)] by auto

text \<open>
  C7, as amended. In the anchor round-trip mode with sell-only retry enabled a buy gets
  exactly one attempt and no backoff; when it fails the cycle loop counts the cycle as
  failed, sleeps \<open>FAIL_BACKOFF\<close> and goes on with the next cycle; a sell gets at least one
  and at most \<open>max(1, RETRY_MAX)\<close> attempts, all of them when it fails. \<open>MultiRouteDrip\<close>
  has no sell-only switch: a buy gets at most \<open>maxBuyRetries\<close> attempts and a sell at most
  \<open>maxSellRetries\<close>, all of them when the leg fails, and a leg that fails ends the loop of
  \<open>run\<close> with its error.
\<close>

theorem sell_only_retry:
  "(isBuy req \<and> RETRY_SELL_ONLY cfg \<and> executeSwapWithRetry cfg req m = (r, m') \<longrightarrow>
      attempts m' = attempts m + 1 \<and> sleeps (trace m') = sleeps (trace m))
   \<and> (i \<le> TOTAL_CYCLES cfg
       \<and> pickCandidate cfg (randomRoute (replies m (attempts m))) = Some token
       \<and> executeSwapWithRetry cfg
            (buyRequest token
               (numberToTokenUnits (toFixed2 (randomFloat (USDC_MIN cfg) (USDC_MAX cfg)
                  (randomAmount (replies m (attempts m))))) 6)
               ((i - 1) * 2 + 1)) m = (Inl err, m1) \<longrightarrow>
         anchorLoop cfg i stats m
           = anchorLoop cfg (i + 1)
               (stats\<lparr>total_cycles := total_cycles stats + 1, failed := failed stats + 1\<rparr>)
               (sleep (FAIL_BACKOFF cfg) m1))
   \<and> (\<not> isBuy req \<and> executeSwapWithRetry cfg req m = (r, m') \<longrightarrow>
         1 \<le> attempts m' - attempts m
         \<and> int (attempts m' - attempts m) \<le> max 1 (RETRY_MAX cfg)
         \<and> ((\<exists>e. r = Inl e) \<longrightarrow> int (attempts m' - attempts m) = max 1 (RETRY_MAX cfg)))
   \<and> (retryLeg config (executeBuy config) (maxBuyRetries config) l mb = (rb, mb') \<longrightarrow>
         int (attempts mb' - attempts mb) \<le> max 0 (maxBuyRetries config)
         \<and> ((\<exists>e. rb = Inl e) \<longrightarrow>
               int (attempts mb' - attempts mb) = max 0 (maxBuyRetries config)))
   \<and> (retryLeg config (executeSell config isRecovery) (maxSellRetries config) l ms = (rs, ms')
        \<longrightarrow> int (attempts ms' - attempts ms) \<le> max 0 (maxSellRetries config)
         \<and> ((\<exists>e. rs = Inl e) \<longrightarrow>
               int (attempts ms' - attempts ms) = max 0 (maxSellRetries config)))
   \<and> (completedTrades (state ml) < totalTrades config \<and> dispatchLeg config ml = (Inl e, ml')
        \<longrightarrow> mainLoop config ml = (Inl e, ml'))"
proof -
  have counted: "\<exists>k. attempts m' = attempts m + k \<and> 1 \<le> k \<and> int k \<le> maxAttemptsFor cfg req
          \<and> ((\<exists>e. r = Inl e) \<longrightarrow> int k = maxAttemptsFor cfg req)
          \<and> sleeps (trace m') = sleeps (trace m) @ map (claimedBackoff cfg) [1..<1 + (k - 1)]"
    if "executeSwapWithRetry cfg req m = (r, m')"
    using executeSwapWithRetry_policy [OF that] by (auto simp: followsPolicy_def)
  have p1: "attempts m' = attempts m + 1 \<and> sleeps (trace m') = sleeps (trace m)"
    if "isBuy req" "RETRY_SELL_ONLY cfg" "executeSwapWithRetry cfg req m = (r, m')"
  proof -
    from counted [OF that(3)] that(1,2) obtain k where "attempts m' = attempts m + k"
      "1 \<le> k" "int k \<le> 1"
      "sleeps (trace m') = sleeps (trace m) @ map (claimedBackoff cfg) [1..<1 + (k - 1)]"
      by (auto simp: maxAttemptsFor_def)
    moreover then have "k = 1" by simp
    ultimately show ?thesis by simp
  qed
  have p2: "anchorLoop cfg i stats m
           = anchorLoop cfg (i + 1)
               (stats\<lparr>total_cycles := total_cycles stats + 1, failed := failed stats + 1\<rparr>)
               (sleep (FAIL_BACKOFF cfg) m1)"
    if "i \<le> TOTAL_CYCLES cfg"
      "pickCandidate cfg (randomRoute (replies m (attempts m))) = Some token"
      "executeSwapWithRetry cfg
            (buyRequest token
               (numberToTokenUnits (toFixed2 (randomFloat (USDC_MIN cfg) (USDC_MAX cfg)
                  (randomAmount (replies m (attempts m))))) 6)
               ((i - 1) * 2 + 1)) m = (Inl err, m1)"
    using that by (subst anchorLoop.simps) (simp add: Let_def)
  have p3: "1 \<le> attempts m' - attempts m
         \<and> int (attempts m' - attempts m) \<le> max 1 (RETRY_MAX cfg)
         \<and> ((\<exists>e. r = Inl e) \<longrightarrow> int (attempts m' - attempts m) = max 1 (RETRY_MAX cfg))"
    if "\<not> isBuy req" "executeSwapWithRetry cfg req m = (r, m')"
    using counted [OF that(2)] that(1) by (auto simp: maxAttemptsFor_def)
  have p6: "mainLoop config ml = (Inl e, ml')"
    if "completedTrades (state ml) < totalTrades config" "dispatchLeg config ml = (Inl e, ml')"
    using that by (subst mainLoop.simps) simp
  from p1 p2 p3 p6
    retryLeg_count [of config "executeBuy config" "maxBuyRetries config" l mb rb mb']
    retryLeg_count [of config "executeSell config isRecovery" "maxSellRetries config" l ms rs ms']
    executeBuy_attempt [of config] executeSell_attempt [of config isRecovery]
  show ?thesis by blast
qed

lemmas loop_defs = anchor_defs twoCycles_def tokenX_def zeroStats_def pickCandidate_def
  toFixed2_def randomFloat_def numberToTokenUnits_def cycleDelayMs_def clamp_def

lemma anchor_amount:
  "numberToTokenUnits (toFixed2 (randomFloat (USDC_MIN twoCycles) (USDC_MAX twoCycles)
      (randomAmount (replies (bootMachine (\<lambda>n. quoteDown) Missing)
         (attempts (bootMachine (\<lambda>n. quoteDown) Missing)))))) 6 = 150000"
  by (simp add: loop_defs)

lemma anchor_failed_buys:
  "fst (anchorLoop twoCycles 1 zeroStats (bootMachine (\<lambda>n. quoteDown) Missing))
     = Inr \<lparr>success = 0, skipped = 0, failed = 2, total_cycles = 2\<rparr>
   \<and> entries BUY (trace (snd (anchorLoop twoCycles 1 zeroStats
        (bootMachine (\<lambda>n. quoteDown) Missing)))) = 2
   \<and> sleeps (trace (snd (anchorLoop twoCycles 1 zeroStats
        (bootMachine (\<lambda>n. quoteDown) Missing)))) = [20000, 20000]"
  by (simp add: loop_defs)

theorem sell_only_retry_witness:
  "isBuy (buyRequest tokenX 150000 1) \<and> RETRY_SELL_ONLY twoCycles
   \<and> fst (executeSwapWithRetry twoCycles (buyRequest tokenX 150000 1)
        (bootMachine (\<lambda>n. quoteDown) Missing)) = Inl QuoteFailed
   \<and> attempts (snd (executeSwapWithRetry twoCycles (buyRequest tokenX 150000 1)
        (bootMachine (\<lambda>n. quoteDown) Missing))) = 1
   \<and> anchorLoop twoCycles 1 zeroStats (bootMachine (\<lambda>n. quoteDown) Missing)
       = anchorLoop twoCycles 2 (zeroStats\<lparr>total_cycles := 1, failed := 1\<rparr>)
           (sleep 20000 (snd (executeSwapWithRetry twoCycles (buyRequest tokenX 150000 1)
              (bootMachine (\<lambda>n. quoteDown) Missing))))
   \<and> fst (anchorLoop twoCycles 1 zeroStats (bootMachine (\<lambda>n. quoteDown) Missing))
       = Inr \<lparr>success = 0, skipped = 0, failed = 2, total_cycles = 2\<rparr>
   \<and> attempts (snd (executeSwapWithRetry twoCycles (sellRequest tokenX 500000 2)
        (bootMachine (\<lambda>n. quoteDown) Missing))) = 2"
proof -
  let ?m = "bootMachine (\<lambda>n. quoteDown) Missing"
  let ?buy = "buyRequest tokenX 150000 1"
  let ?sell = "sellRequest tokenX 500000 2"
  let ?x = "executeSwapWithRetry twoCycles ?buy ?m"
  let ?y = "executeSwapWithRetry twoCycles ?sell ?m"
  have b: "isBuy ?buy" "RETRY_SELL_ONLY twoCycles" "\<not> isBuy ?sell"
    by (simp_all add: buyRequest_def sellRequest_def twoCycles_def anchorDefaults_def)
  have fx: "fst ?x = Inl QuoteFailed" and fy: "\<exists>e. fst ?y = Inl e"
    by (simp_all add: loop_defs)
  have px: "?x = (Inl QuoteFailed, snd ?x)" using fx by (metis prod.collapse)
  have py: "?y = (fst ?y, snd ?y)" by simp
  have pick: "pickCandidate twoCycles (randomRoute (replies ?m (attempts ?m))) = Some tokenX"
    by (simp add: loop_defs)
  have i: "(1 :: int) \<le> TOTAL_CYCLES twoCycles" "((1 :: int) - 1) * 2 + 1 = 1"
    and fb: "FAIL_BACKOFF twoCycles = 20000" and mx: "max 1 (RETRY_MAX twoCycles) = 2"
    and a0: "attempts ?m = 0"
    by (simp_all add: twoCycles_def anchorDefaults_def bootMachine_def)
  note inst = sell_only_retry [where cfg = twoCycles and m = ?m and i = 1 and token = tokenX
      and err = QuoteFailed and stats = zeroStats]
  from inst [where req = ?buy and r = "Inl QuoteFailed" and m' = "snd ?x" and ?m1.0 = "snd ?x"]
    b px pick i anchor_amount
  have one: "attempts (snd ?x) = attempts ?m + 1"
    and next_cycle: "anchorLoop twoCycles 1 zeroStats ?m
           = anchorLoop twoCycles (1 + 1)
               (zeroStats\<lparr>total_cycles := total_cycles zeroStats + 1,
                           failed := failed zeroStats + 1\<rparr>)
               (sleep (FAIL_BACKOFF twoCycles) (snd ?x))"
    by simp_all
  from inst [where req = ?sell and r = "fst ?y" and m' = "snd ?y"] b py fy
  have two: "int (attempts (snd ?y) - attempts ?m) = max 1 (RETRY_MAX twoCycles)"
    by blast
  from one next_cycle two b fx fb mx a0 anchor_failed_buys
  show ?thesis by (simp add: zeroStats_def)
qed

text \<open>
  C7 as stated fails in \<open>MultiRouteDrip\<close>: with one attempt allowed for a buy and the quote
  service down, the first buy fails once and the run aborts with no trade completed out of
  ten.
\<close>

theorem failed_buy_aborts_counterexample:
  "fst (tryBlock (defaultConfig\<lparr>maxBuyRetries := 1\<rparr>)
        (construct (bootMachine (\<lambda>n. quoteDown) Missing)))
     = Inl (Exhausted 1 ''BUY'' (Some QuoteFailed))
   \<and> entries BUY (trace (snd (main (defaultConfig\<lparr>maxBuyRetries := 1\<rparr>)
        (bootMachine (\<lambda>n. quoteDown) Missing)))) = 1
   \<and> completedTrades (state (snd (main (defaultConfig\<lparr>maxBuyRetries := 1\<rparr>)
        (bootMachine (\<lambda>n. quoteDown) Missing)))) = 0
   \<and> totalTrades (defaultConfig\<lparr>maxBuyRetries := 1\<rparr>) = 10
   \<and> last (trace (snd (main (defaultConfig\<lparr>maxBuyRetries := 1\<rparr>)
        (bootMachine (\<lambda>n. quoteDown) Missing)))) = Summary"
  by (simp add: run_defs buy_defs example_defs quoteDown_def entries_def calculateDelay_def
      ESTIMATED_EXEC_MS_def SAFETY_FACTOR_def WSOL_MINT_def USDC_MINT_def)

end
